theory Spec2Isabelle
  imports Main "HOL-Library.AList"
begin

section \<open>The bundler configuration (vite.config.js, in two locations)\<close>

text \<open>
  Both configuration files export one object literal, passed through vite's
  \<^verbatim>\<open>defineConfig\<close>. An object literal is a finite tree: its fields in source order,
  each holding a boolean, a number, a string, a regular-expression literal, the result of
  a call into an imported package (\<^verbatim>\<open>react()\<close>), an array or a nested object.
  No field name occurs twice in any object of the two files.
\<close>

datatype literal =
    LBool bool
  | LNum int
  | LStr string
  | LRegex string
  | LCall string
  | LArr "literal list"
  | LObj "(string \<times> literal) list"

text \<open>\<^verbatim>\<open>defineConfig\<close> (imported from vite) hands its argument back as it is.\<close>

definition defineConfig :: "literal \<Rightarrow> literal" where
  "defineConfig c = c"

text \<open>The default export of \<^verbatim>\<open>src/ui/vite.config.js\<close>, lines 6 to 51.\<close>

definition vite_config_ui :: literal where
  "vite_config_ui = defineConfig (LObj [
     (''plugins'', LArr [LCall ''react'']),
     (''esbuild'', LObj [
        (''loader'', LStr ''jsx''),
        (''include'', LRegex (''src'' @ [CHR 0x5C] @ ''/.*'' @ [CHR 0x5C] @ ''.[jt]sx?$'')),
        (''exclude'', LArr [])]),
     (''optimizeDeps'', LObj [
        (''include'', LArr [LStr ''aws-amplify'', LStr ''@aws-amplify/ui-react'', LStr ''buffer'']),
        (''esbuildOptions'', LObj [
           (''loader'', LObj [(''.js'', LStr ''jsx'')])])]),
     (''server'', LObj [
        (''port'', LNum 3000),
        (''host'', LBool True),
        (''open'', LBool True)]),
     (''build'', LObj [
        (''outDir'', LStr ''build''),
        (''sourcemap'', LBool True)]),
     (''define'', LObj [
        (''global'', LStr ''globalThis'')]),
     (''resolve'', LObj [
        (''alias'', LObj [
           (''./runtimeConfig'', LStr ''./runtimeConfig.browser''),
           (''buffer'', LStr ''buffer'')])]),
     (''test'', LObj [
        (''globals'', LBool True),
        (''environment'', LStr ''jsdom''),
        (''setupFiles'', LStr ''./src/setupTests.js''),
        (''css'', LBool True),
        (''server'', LObj [
           (''deps'', LObj [
              (''external'', LArr [LStr ''maplibre-gl''])])])])])"

text \<open>The default export of the second configuration file (\<^verbatim>\<open>part_000\<close>), lines 6 to 40.\<close>

definition vite_config_root :: literal where
  "vite_config_root = defineConfig (LObj [
     (''plugins'', LArr [LCall ''react'']),
     (''server'', LObj [
        (''port'', LNum 3000),
        (''host'', LBool True),
        (''open'', LBool True)]),
     (''build'', LObj [
        (''outDir'', LStr ''build''),
        (''sourcemap'', LBool True)]),
     (''define'', LObj [
        (''global'', LStr ''globalThis'')]),
     (''resolve'', LObj [
        (''alias'', LObj [
           (''./runtimeConfig'', LStr ''./runtimeConfig.browser''),
           (''buffer'', LStr ''buffer'')])]),
     (''optimizeDeps'', LObj [
        (''include'', LArr [LStr ''aws-amplify'', LStr ''@aws-amplify/ui-react'', LStr ''buffer''])]),
     (''test'', LObj [
        (''globals'', LBool True),
        (''environment'', LStr ''jsdom''),
        (''setupFiles'', LStr ''./src/setupTests.js''),
        (''css'', LBool True),
        (''server'', LObj [
           (''deps'', LObj [
              (''external'', LArr [LStr ''maplibre-gl''])])])])])"

text \<open>
  Reading a field path \<^verbatim>\<open>c.k1.k2...\<close>: \<open>None\<close> where a field is absent or the path
  runs through a value that is not an object.
\<close>

fun field_at :: "literal \<Rightarrow> string list \<Rightarrow> literal option" where
  "field_at v [] = Some v"
| "field_at (LObj kvs) (k # ks) =
     (case map_of kvs k of None \<Rightarrow> None | Some v \<Rightarrow> field_at v ks)"
| "field_at _ (k # ks) = None"

fun is_object :: "literal \<Rightarrow> bool" where
  "is_object (LObj kvs) = True"
| "is_object _ = False"

text \<open>Every path of a configuration that ends in a value other than an object, with that value.\<close>

fun leaves :: "literal \<Rightarrow> (string list \<times> literal) list" where
  "leaves (LObj kvs) =
     concat (map (\<lambda>(k, v). map (\<lambda>(p, w). (k # p, w)) (leaves v)) kvs)"
| "leaves v = [([], v)]"


section \<open>The test setup script (setupTests.js)\<close>

text \<open>
  The script runs four assignments (lines 12, 13, 16 and 23) on the global object of the
  test environment. Objects are shared and mutated in place, so they live in a store:
  an address is an index into the list of allocated objects, and allocation appends.
  The two imports (lines 7 and 9) load packages; of these only \<^verbatim>\<open>vi.fn\<close> and
  \<^verbatim>\<open>mockImplementation\<close>, which the script calls, are part of the model.
\<close>

type_synonym addr = nat

datatype jsval =
    JUndefined
  | JNull
  | JBool bool
  | JNum int
  | JStr string
  | JRef addr

text \<open>
  The arrow functions of the script: \<^verbatim>\<open>() => 'mocked-url'\<close> (line 12) and
  \<^verbatim>\<open>() => ({ observe: vi.fn(), unobserve: vi.fn(), disconnect: vi.fn() })\<close>
  (lines 16 to 20, and again lines 23 to 27).
\<close>

datatype closure = MockedUrlFn | ObserverFn

text \<open>
  What \<^verbatim>\<open>vi.fn\<close> (imported from vitest) returns is a function object that carries
  an optional implementation and the record of its invocations (\<^verbatim>\<open>mock.calls\<close>,
  \<^verbatim>\<open>mock.results\<close>): the argument list of every call, and the value every call
  returned. An object of the store has its own properties, in insertion order, and is a
  mock function or not. Mocks are the only functions of the model: of a class or function
  that the environment provides, such as \<^verbatim>\<open>URL\<close>, the store keeps the properties.
\<close>

record mockinfo =
  impl :: "closure option"
  calls :: "jsval list list"
  results :: "jsval list"

record obj =
  props :: "(string \<times> jsval) list"
  mock :: "mockinfo option"

record state =
  heap :: "obj list"
  global_addr :: addr

datatype error = TypeError | ModuleNotFound

text \<open>Sequencing of statements: the first exception ends the script.\<close>

definition and_then :: "error + 'a \<Rightarrow> ('a \<Rightarrow> error + 'b) \<Rightarrow> error + 'b" where
  "and_then r f = (case r of Inl e \<Rightarrow> Inl e | Inr x \<Rightarrow> f x)"

text \<open>Reading \<^verbatim>\<open>o.p\<close> of an object: \<^verbatim>\<open>undefined\<close> where the property is absent.\<close>

definition get_prop :: "state \<Rightarrow> addr \<Rightarrow> string \<Rightarrow> jsval" where
  "get_prop s a p =
     (if a < length (heap s)
      then (case map_of (props (heap s ! a)) p of None \<Rightarrow> JUndefined | Some v \<Rightarrow> v)
      else JUndefined)"

text \<open>
  The assignment \<^verbatim>\<open>b.p = v\<close> (module code is strict): a TypeError unless \<^verbatim>\<open>b\<close> is an
  object; on an object the property is overwritten, or added after the existing ones.
\<close>

fun put_prop :: "state \<Rightarrow> jsval \<Rightarrow> string \<Rightarrow> jsval \<Rightarrow> error + state" where
  "put_prop s (JRef a) p v =
     (if a < length (heap s)
      then Inr (s\<lparr>heap := (heap s)[a := (heap s ! a)\<lparr>props := AList.update p v (props (heap s ! a))\<rparr>]\<rparr>)
      else Inl TypeError)"
| "put_prop s _ p v = Inl TypeError"

definition alloc :: "obj \<Rightarrow> state \<Rightarrow> addr \<times> state" where
  "alloc ob s = (length (heap s), s\<lparr>heap := heap s @ [ob]\<rparr>)"

text \<open>\<^verbatim>\<open>vi.fn(f)\<close> and \<^verbatim>\<open>vi.fn()\<close>: a new mock function, never called so far.\<close>

definition vi_fn :: "closure option \<Rightarrow> state \<Rightarrow> addr \<times> state" where
  "vi_fn f s = alloc \<lparr>props = [], mock = Some \<lparr>impl = f, calls = [], results = []\<rparr>\<rparr> s"

text \<open>\<^verbatim>\<open>m.mockImplementation(f)\<close> on the mock at \<open>a\<close>: replaces the implementation, returns the mock.\<close>

definition mockImplementation :: "addr \<Rightarrow> closure \<Rightarrow> state \<Rightarrow> error + (addr \<times> state)" where
  "mockImplementation a f s =
     (if a < length (heap s)
      then (case mock (heap s ! a) of
              None \<Rightarrow> Inl TypeError
            | Some m \<Rightarrow> Inr (a, s\<lparr>heap := (heap s)[a := (heap s ! a)\<lparr>mock := Some (m\<lparr>impl := Some f\<rparr>)\<rparr>]\<rparr>))
      else Inl TypeError)"

text \<open>Running the body of an arrow function of the script; neither reads its arguments.\<close>

fun run_closure :: "closure \<Rightarrow> state \<Rightarrow> jsval \<times> state" where
  "run_closure MockedUrlFn s = (JStr ''mocked-url'', s)"
| "run_closure ObserverFn s =
     (let (o1, s1) = vi_fn None s;
          (o2, s2) = vi_fn None s1;
          (o3, s3) = vi_fn None s2;
          (a, s4) = alloc \<lparr>props = [(''observe'', JRef o1), (''unobserve'', JRef o2),
                                      (''disconnect'', JRef o3)], mock = None\<rparr> s3
      in (JRef a, s4))"

text \<open>The mock at \<open>a\<close> records one invocation: its arguments and the value returned.\<close>

definition record_call :: "addr \<Rightarrow> jsval list \<Rightarrow> jsval \<Rightarrow> state \<Rightarrow> state" where
  "record_call a args r s =
     s\<lparr>heap := (heap s)[a := (heap s ! a)\<lparr>mock :=
          map_option (\<lambda>m. m\<lparr>calls := calls m @ [args], results := results m @ [r]\<rparr>)
            (mock (heap s ! a))\<rparr>]\<rparr>"

text \<open>
  The call \<^verbatim>\<open>f(args)\<close>: a TypeError unless \<^verbatim>\<open>f\<close> is a function. A mock runs its
  implementation (a mock without one returns \<^verbatim>\<open>undefined\<close>) and records the call.
\<close>

fun call_fn :: "state \<Rightarrow> jsval \<Rightarrow> jsval list \<Rightarrow> error + (jsval \<times> state)" where
  "call_fn s (JRef a) args =
     (if a < length (heap s)
      then (case mock (heap s ! a) of
              None \<Rightarrow> Inl TypeError
            | Some m \<Rightarrow>
                (let (r, s1) = (case impl m of None \<Rightarrow> (JUndefined, s) | Some f \<Rightarrow> run_closure f s)
                 in Inr (r, record_call a args r s1)))
      else Inl TypeError)"
| "call_fn s _ args = Inl TypeError"

text \<open>
  The construction \<^verbatim>\<open>new f(args)\<close> of a mock depends on the version of vitest, which
  the sources at hand do not fix.
  \<^item> Up to version 3 a mock is an ordinary function around its implementation: the fresh
    \<^verbatim>\<open>this\<close> object is allocated, the implementation runs, and the result is the
    object it returned, or \<^verbatim>\<open>this\<close> when it returned no object.
  \<^item> From version 4 the implementation itself is constructed, and an arrow function is
    no constructor: a mock whose implementation is an arrow function throws a TypeError.
    Both implementations of the script are arrow functions.
  The script is written for the former: under the latter neither of its two constructor
  mocks could be constructed. An exception carries no state in this model.
\<close>

datatype vitest = UpTo3 | From4

fun construct :: "vitest \<Rightarrow> state \<Rightarrow> jsval \<Rightarrow> jsval list \<Rightarrow> error + (jsval \<times> state)" where
  "construct v s (JRef a) args =
     (if a < length (heap s)
      then (case mock (heap s ! a) of
              None \<Rightarrow> Inl TypeError
            | Some m \<Rightarrow>
                (if v = From4 \<and> impl m \<noteq> None then Inl TypeError
                 else
                  (let (this, s0) = alloc \<lparr>props = [], mock = None\<rparr> s;
                       (r, s1) = (case impl m of None \<Rightarrow> (JUndefined, s0) | Some f \<Rightarrow> run_closure f s0);
                       s2 = record_call a args r s1
                   in Inr (case r of JRef b \<Rightarrow> JRef b | _ \<Rightarrow> JRef this, s2))))
      else Inl TypeError)"
| "construct v s _ args = Inl TypeError"

text \<open>Line 12: \<^verbatim>\<open>global.URL.createObjectURL = vi.fn(() => 'mocked-url');\<close>\<close>

definition line12 :: "state \<Rightarrow> error + state" where
  "line12 s =
     (let url = get_prop s (global_addr s) ''URL'';
          (f, s1) = vi_fn (Some MockedUrlFn) s
      in put_prop s1 url ''createObjectURL'' (JRef f))"

text \<open>Line 13: \<^verbatim>\<open>global.URL.revokeObjectURL = vi.fn();\<close>\<close>

definition line13 :: "state \<Rightarrow> error + state" where
  "line13 s =
     (let url = get_prop s (global_addr s) ''URL'';
          (f, s1) = vi_fn None s
      in put_prop s1 url ''revokeObjectURL'' (JRef f))"

text \<open>Lines 16 to 20: \<^verbatim>\<open>global.ResizeObserver = vi.fn().mockImplementation(() => ({...}));\<close>\<close>

definition line16 :: "state \<Rightarrow> error + state" where
  "line16 s =
     (let (f, s1) = vi_fn None s
      in and_then (mockImplementation f ObserverFn s1)
           (\<lambda>(m, s2). put_prop s2 (JRef (global_addr s2)) ''ResizeObserver'' (JRef m)))"

text \<open>Lines 23 to 27: \<^verbatim>\<open>global.IntersectionObserver = vi.fn().mockImplementation(() => ({...}));\<close>\<close>

definition line23 :: "state \<Rightarrow> error + state" where
  "line23 s =
     (let (f, s1) = vi_fn None s
      in and_then (mockImplementation f ObserverFn s1)
           (\<lambda>(m, s2). put_prop s2 (JRef (global_addr s2)) ''IntersectionObserver'' (JRef m)))"

text \<open>The script: its four statements in source order.\<close>

definition setupTests :: "state \<Rightarrow> error + state" where
  "setupTests s =
     and_then (line12 s) (\<lambda>s1.
     and_then (line13 s1) (\<lambda>s2.
     and_then (line16 s2) line23))"

text \<open>
  A test environment as jsdom gives it: the global object at address 0 with the fields
  \<^verbatim>\<open>URL\<close> and \<^verbatim>\<open>document\<close>, the \<^verbatim>\<open>URL\<close> class at address 1 with one static
  property, the document at address 2.
\<close>

definition jsdom_env :: state where
  "jsdom_env =
     \<lparr>heap = [\<lparr>props = [(''URL'', JRef 1), (''document'', JRef 2)], mock = None\<rparr>,
              \<lparr>props = [(''name'', JStr ''URL'')], mock = None\<rparr>,
              \<lparr>props = [], mock = None\<rparr>],
      global_addr = 0\<rparr>"


text \<open>The same environment once the script has run.\<close>

definition jsdom_after_setup :: state where
  "jsdom_after_setup =
     \<lparr>heap = [\<lparr>props = [(''URL'', JRef 1), (''document'', JRef 2),
                         (''ResizeObserver'', JRef 5), (''IntersectionObserver'', JRef 6)],
                mock = None\<rparr>,
              \<lparr>props = [(''name'', JStr ''URL''), (''createObjectURL'', JRef 3),
                         (''revokeObjectURL'', JRef 4)],
                mock = None\<rparr>,
              \<lparr>props = [], mock = None\<rparr>,
              \<lparr>props = [], mock = Some \<lparr>impl = Some MockedUrlFn, calls = [], results = []\<rparr>\<rparr>,
              \<lparr>props = [], mock = Some \<lparr>impl = None, calls = [], results = []\<rparr>\<rparr>,
              \<lparr>props = [], mock = Some \<lparr>impl = Some ObserverFn, calls = [], results = []\<rparr>\<rparr>,
              \<lparr>props = [], mock = Some \<lparr>impl = Some ObserverFn, calls = [], results = []\<rparr>\<rparr>],
      global_addr = 0\<rparr>"

text \<open>
  And once a test has then evaluated \<^verbatim>\<open>new ResizeObserver()\<close>: the observer is the
  object at address 11, its three methods are the mocks at 8, 9 and 10.
\<close>

definition jsdom_with_observer :: state where
  "jsdom_with_observer =
     \<lparr>heap = [\<lparr>props = [(''URL'', JRef 1), (''document'', JRef 2),
                         (''ResizeObserver'', JRef 5), (''IntersectionObserver'', JRef 6)],
                mock = None\<rparr>,
              \<lparr>props = [(''name'', JStr ''URL''), (''createObjectURL'', JRef 3),
                         (''revokeObjectURL'', JRef 4)],
                mock = None\<rparr>,
              \<lparr>props = [], mock = None\<rparr>,
              \<lparr>props = [], mock = Some \<lparr>impl = Some MockedUrlFn, calls = [], results = []\<rparr>\<rparr>,
              \<lparr>props = [], mock = Some \<lparr>impl = None, calls = [], results = []\<rparr>\<rparr>,
              \<lparr>props = [], mock = Some \<lparr>impl = Some ObserverFn, calls = [[]], results = [JRef 11]\<rparr>\<rparr>,
              \<lparr>props = [], mock = Some \<lparr>impl = Some ObserverFn, calls = [], results = []\<rparr>\<rparr>,
              \<lparr>props = [], mock = None\<rparr>,
              \<lparr>props = [], mock = Some \<lparr>impl = None, calls = [], results = []\<rparr>\<rparr>,
              \<lparr>props = [], mock = Some \<lparr>impl = None, calls = [], results = []\<rparr>\<rparr>,
              \<lparr>props = [], mock = Some \<lparr>impl = None, calls = [], results = []\<rparr>\<rparr>,
              \<lparr>props = [(''observe'', JRef 8), (''unobserve'', JRef 9), (''disconnect'', JRef 10)],
                mock = None\<rparr>],
      global_addr = 0\<rparr>"

subsection \<open>What code under test can see of a state\<close>

text \<open>
  Besides the properties of an object (\<open>get_prop\<close>): whether the object at an address is
  a mock function, with its implementation and call record; and the global bindings.
\<close>

definition mock_at :: "state \<Rightarrow> addr \<Rightarrow> mockinfo option" where
  "mock_at s a = (if a < length (heap s) then mock (heap s ! a) else None)"

definition fresh_mock :: "closure option \<Rightarrow> mockinfo" where
  "fresh_mock f = \<lparr>impl = f, calls = [], results = []\<rparr>"

definition global_get :: "state \<Rightarrow> string \<Rightarrow> jsval" where
  "global_get s name = get_prop s (global_addr s) name"

text \<open>The method call \<^verbatim>\<open>b.name(args)\<close>.\<close>

fun call_member :: "state \<Rightarrow> jsval \<Rightarrow> string \<Rightarrow> jsval list \<Rightarrow> error + (jsval \<times> state)" where
  "call_member s (JRef a) name args = call_fn s (get_prop s a name) args"
| "call_member s _ name args = Inl TypeError"

text \<open>The value of an expression, without the state it leaves.\<close>

definition returned :: "error + (jsval \<times> state) \<Rightarrow> error + jsval" where
  "returned r = (case r of Inl e \<Rightarrow> Inl e | Inr (v, s) \<Rightarrow> Inr v)"

text \<open>
  Code under test calling \<^verbatim>\<open>URL.name(args)\<close> for each element of a list in turn,
  collecting the values returned.
\<close>

fun call_URL_each :: "state \<Rightarrow> (string \<times> jsval list) list \<Rightarrow> error + (jsval list \<times> state)" where
  "call_URL_each s [] = Inr ([], s)"
| "call_URL_each s ((name, args) # rest) =
     and_then (call_member s (global_get s ''URL'') name args) (\<lambda>(r, s1).
     and_then (call_URL_each s1 rest) (\<lambda>(rs, s2). Inr (r # rs, s2)))"

text \<open>The \<^verbatim>\<open>typeof\<close> operator.\<close>

fun typeof :: "state \<Rightarrow> jsval \<Rightarrow> string" where
  "typeof s JUndefined = ''undefined''"
| "typeof s JNull = ''object''"
| "typeof s (JBool b) = ''boolean''"
| "typeof s (JNum n) = ''number''"
| "typeof s (JStr x) = ''string''"
| "typeof s (JRef a) = (case mock_at s a of None \<Rightarrow> ''object'' | Some m \<Rightarrow> ''function'')"

text \<open>
  Two expressions of code under test on a constructor bound to a global name:
  \<^verbatim>\<open>(new Name(args))[m](args')\<close> and \<^verbatim>\<open>typeof (new Name(args))[q]\<close>.
\<close>

definition new_then_call :: "vitest \<Rightarrow> state \<Rightarrow> string \<Rightarrow> jsval list \<Rightarrow> string \<Rightarrow> jsval list \<Rightarrow> error + jsval" where
  "new_then_call v s name args m args' =
     returned (and_then (construct v s (global_get s name) args)
                 (\<lambda>(ob, t). call_member t ob m args'))"

definition new_then_typeof :: "vitest \<Rightarrow> state \<Rightarrow> string \<Rightarrow> jsval list \<Rightarrow> string \<Rightarrow> error + string" where
  "new_then_typeof v s name args q =
     and_then (construct v s (global_get s name) args)
       (\<lambda>(ob, t). case ob of JRef a \<Rightarrow> Inr (typeof t (get_prop t a q)) | _ \<Rightarrow> Inl TypeError)"

subsection \<open>Code under test\<close>

text \<open>
  What code under test does with functions: it calls them and constructs with them, any
  values with any arguments, any number of times, in any order. A step that throws is
  caught, and leaves the state as it is. Assignments are not among the steps: a test that
  assigns to one of the four bindings ends what the script has set up.
\<close>

datatype action = Call jsval "jsval list" | New jsval "jsval list"

fun perform :: "vitest \<Rightarrow> state \<Rightarrow> action list \<Rightarrow> state" where
  "perform v s [] = s"
| "perform v s (Call f args # rest) =
     (case call_fn s f args of Inl e \<Rightarrow> perform v s rest | Inr (r, t) \<Rightarrow> perform v t rest)"
| "perform v s (New f args # rest) =
     (case construct v s f args of Inl e \<Rightarrow> perform v s rest | Inr (r, t) \<Rightarrow> perform v t rest)"

text \<open>
  A later state keeps an earlier one when every object of the earlier state is still
  there with the same properties, a mock is still a mock with the same implementation,
  an object that is no function still is none, and the global object is the same.
\<close>

definition keeps :: "state \<Rightarrow> state \<Rightarrow> bool" where
  "keeps s t \<longleftrightarrow>
     length (heap s) \<le> length (heap t) \<and> global_addr t = global_addr s \<and>
     (\<forall>a q. a < length (heap s) \<longrightarrow> get_prop t a q = get_prop s a q) \<and>
     (\<forall>a m. mock_at s a = Some m \<longrightarrow> (\<exists>m'. mock_at t a = Some m' \<and> impl m' = impl m)) \<and>
     (\<forall>a. a < length (heap s) \<longrightarrow> mock_at s a = None \<longrightarrow> mock_at t a = None)"

section \<open>The test runner and the entry \<^verbatim>\<open>test.setupFiles\<close>\<close>

text \<open>
  The runner (vitest) is not part of the repository; what the configuration asks of it
  is. For a test file, vitest first runs the files that \<^verbatim>\<open>test.setupFiles\<close> names (one
  path or a list of paths), in order, and then the tests of the file, in order. A setup
  file that cannot be loaded or that throws fails the test file: none of its tests runs.
  A test is any code on the state: it passes or fails, and leaves a state.

  The path \<^verbatim>\<open>./src/setupTests.js\<close>, relative to the directory of the configuration
  file, is taken to be the setup script modelled above, the only setup file among the
  sources at hand; any other path cannot be loaded.
\<close>

datatype event = SetupFileRun string | TestRun nat bool

type_synonym test = "state \<Rightarrow> bool \<times> state"

definition setup_files :: "literal \<Rightarrow> string list" where
  "setup_files c =
     (case field_at c [''test'', ''setupFiles''] of
        Some (LStr f) \<Rightarrow> [f]
      | Some (LArr fs) \<Rightarrow> concat (map (\<lambda>x. case x of LStr f \<Rightarrow> [f] | _ \<Rightarrow> []) fs)
      | _ \<Rightarrow> [])"

definition load_setup_file :: "string \<Rightarrow> (state \<Rightarrow> error + state) option" where
  "load_setup_file f = (if f = ''./src/setupTests.js'' then Some setupTests else None)"

fun run_setup_files :: "string list \<Rightarrow> state \<Rightarrow> error + (event list \<times> state)" where
  "run_setup_files [] s = Inr ([], s)"
| "run_setup_files (f # fs) s =
     (case load_setup_file f of
        None \<Rightarrow> Inl ModuleNotFound
      | Some script \<Rightarrow>
          and_then (script s) (\<lambda>s1.
          and_then (run_setup_files fs s1) (\<lambda>(ev, s2). Inr (SetupFileRun f # ev, s2))))"

fun run_tests :: "nat \<Rightarrow> test list \<Rightarrow> state \<Rightarrow> event list \<times> state" where
  "run_tests i [] s = ([], s)"
| "run_tests i (t # ts) s =
     (let (ok, s1) = t s; (ev, s2) = run_tests (Suc i) ts s1 in (TestRun i ok # ev, s2))"

definition run_test_file :: "literal \<Rightarrow> test list \<Rightarrow> state \<Rightarrow> error + (event list \<times> state)" where
  "run_test_file c tests s =
     and_then (run_setup_files (setup_files c) s) (\<lambda>(ev, s1).
       let (ev', s2) = run_tests 0 tests s1 in Inr (ev @ ev', s2))"

fun is_test_run :: "event \<Rightarrow> bool" where
  "is_test_run (TestRun i ok) = True"
| "is_test_run (SetupFileRun f) = False"

text \<open>A test: \<^verbatim>\<open>expect(URL.createObjectURL('blob')).toBe('mocked-url')\<close>.\<close>

definition example_test :: test where
  "example_test s =
     (case call_member s (global_get s ''URL'') ''createObjectURL'' [JStr ''blob''] of
        Inl e \<Rightarrow> (False, s)
      | Inr (r, t) \<Rightarrow> (r = JStr ''mocked-url'', t))"

section \<open>Auxiliary facts\<close>

subsection \<open>Field paths\<close>

text \<open>Every path that ends in a value other than an object is among the leaves.\<close>

lemma field_at_leaf:
  "field_at c p = Some v \<Longrightarrow> \<not> is_object v \<Longrightarrow> (p, v) \<in> set (leaves c)"
proof (induction p arbitrary: c)
  case Nil
  then show ?case by (cases c) auto
next
  case (Cons k ks)
  then obtain kvs where c: "c = LObj kvs" by (cases c) auto
  with Cons.prems obtain c' where m: "map_of kvs k = Some c'" and f: "field_at c' ks = Some v"
    by (auto split: option.splits)
  from m have "(k, c') \<in> set kvs" by (rule map_of_SomeD)
  moreover from Cons.IH [OF f Cons.prems(2)] have "(ks, v) \<in> set (leaves c')" .
  ultimately show ?case unfolding c by force
qed

subsection \<open>The effect of each operation on what can be seen of the state\<close>

lemma alloc_effect:
  "alloc ob s = (a, s') \<Longrightarrow>
     a = length (heap s) \<and> length (heap s') = Suc (length (heap s)) \<and> global_addr s' = global_addr s \<and>
     (\<forall>b q. get_prop s' b q =
        (if b = a then (case map_of (props ob) q of None \<Rightarrow> JUndefined | Some v \<Rightarrow> v)
         else get_prop s b q)) \<and>
     (\<forall>b. mock_at s' b = (if b = a then mock ob else mock_at s b))"
  by (auto simp: alloc_def get_prop_def mock_at_def nth_append)

lemma get_prop_dangling: "length (heap s) \<le> a \<Longrightarrow> get_prop s a q = JUndefined"
  by (simp add: get_prop_def)

lemma mock_at_dangling: "length (heap s) \<le> a \<Longrightarrow> mock_at s a = None"
  by (simp add: mock_at_def)

lemma vi_fn_effect:
  "vi_fn f s = (a, s') \<Longrightarrow>
     a = length (heap s) \<and> length (heap s') = Suc (length (heap s)) \<and> global_addr s' = global_addr s \<and>
     (\<forall>b q. get_prop s' b q = get_prop s b q) \<and>
     (\<forall>b. mock_at s' b = (if b = a then Some (fresh_mock f) else mock_at s b))"
  using alloc_effect [of "\<lparr>props = [], mock = Some (fresh_mock f)\<rparr>" s a s']
  by (simp add: vi_fn_def fresh_mock_def get_prop_dangling)

lemma put_prop_effect:
  "put_prop s v p w = Inr s' \<Longrightarrow>
     \<exists>a. v = JRef a \<and> a < length (heap s) \<and> length (heap s') = length (heap s) \<and>
       global_addr s' = global_addr s \<and>
       (\<forall>b q. get_prop s' b q = (if b = a \<and> q = p then w else get_prop s b q)) \<and>
       (\<forall>b. mock_at s' b = mock_at s b)"
  by (cases v) (auto simp: get_prop_def mock_at_def update_conv' nth_list_update split: if_splits)


lemma mockImplementation_effect:
  "mockImplementation a f s = Inr (m, s') \<Longrightarrow>
     m = a \<and> length (heap s') = length (heap s) \<and> global_addr s' = global_addr s \<and>
     (\<forall>b q. get_prop s' b q = get_prop s b q) \<and>
     (\<exists>mi. mock_at s a = Some mi \<and>
        (\<forall>b. mock_at s' b = (if b = a then Some (mi\<lparr>impl := Some f\<rparr>) else mock_at s b)))"
  by (auto simp: mockImplementation_def get_prop_def mock_at_def nth_list_update
           split: if_splits option.splits)

lemma line12_effect:
  assumes "line12 s = Inr s'"
  shows "\<exists>u. get_prop s (global_addr s) ''URL'' = JRef u \<and> u \<le> length (heap s) \<and>
           length (heap s') = Suc (length (heap s)) \<and> global_addr s' = global_addr s \<and>
           (\<forall>b q. get_prop s' b q =
              (if b = u \<and> q = ''createObjectURL'' then JRef (length (heap s)) else get_prop s b q)) \<and>
           (\<forall>b. mock_at s' b =
              (if b = length (heap s) then Some (fresh_mock (Some MockedUrlFn)) else mock_at s b))"
proof -
  obtain f s1 where v: "vi_fn (Some MockedUrlFn) s = (f, s1)" by (cases "vi_fn (Some MockedUrlFn) s")
  with assms have p: "put_prop s1 (get_prop s (global_addr s) ''URL'') ''createObjectURL'' (JRef f) = Inr s'"
    by (simp add: line12_def)
  from vi_fn_effect [OF v] put_prop_effect [OF p] show ?thesis by auto
qed

lemma line13_effect:
  assumes "line13 s = Inr s'"
  shows "\<exists>u. get_prop s (global_addr s) ''URL'' = JRef u \<and> u \<le> length (heap s) \<and>
           length (heap s') = Suc (length (heap s)) \<and> global_addr s' = global_addr s \<and>
           (\<forall>b q. get_prop s' b q =
              (if b = u \<and> q = ''revokeObjectURL'' then JRef (length (heap s)) else get_prop s b q)) \<and>
           (\<forall>b. mock_at s' b =
              (if b = length (heap s) then Some (fresh_mock None) else mock_at s b))"
proof -
  obtain f s1 where v: "vi_fn None s = (f, s1)" by (cases "vi_fn None s")
  with assms have p: "put_prop s1 (get_prop s (global_addr s) ''URL'') ''revokeObjectURL'' (JRef f) = Inr s'"
    by (simp add: line13_def)
  from vi_fn_effect [OF v] put_prop_effect [OF p] show ?thesis by auto
qed

lemma install_observer_effect:
  assumes v: "vi_fn None s = (f, s1)"
    and r: "and_then (mockImplementation f ObserverFn s1)
              (\<lambda>(m, s2). put_prop s2 (JRef (global_addr s2)) name (JRef m)) = Inr s'"
  shows "global_addr s \<le> length (heap s) \<and>
         length (heap s') = Suc (length (heap s)) \<and> global_addr s' = global_addr s \<and>
         (\<forall>b q. get_prop s' b q =
            (if b = global_addr s \<and> q = name then JRef (length (heap s)) else get_prop s b q)) \<and>
         (\<forall>b. mock_at s' b =
            (if b = length (heap s) then Some (fresh_mock (Some ObserverFn)) else mock_at s b))"
proof -
  from r obtain m s2 where mi: "mockImplementation f ObserverFn s1 = Inr (m, s2)"
    and p: "put_prop s2 (JRef (global_addr s2)) name (JRef m) = Inr s'"
    by (auto simp: and_then_def split: sum.splits)
  from vi_fn_effect [OF v] mockImplementation_effect [OF mi] put_prop_effect [OF p]
  show ?thesis by (auto simp: fresh_mock_def)
qed

lemma line16_effect:
  assumes "line16 s = Inr s'"
  shows "global_addr s \<le> length (heap s) \<and>
         length (heap s') = Suc (length (heap s)) \<and> global_addr s' = global_addr s \<and>
         (\<forall>b q. get_prop s' b q =
            (if b = global_addr s \<and> q = ''ResizeObserver'' then JRef (length (heap s)) else get_prop s b q)) \<and>
         (\<forall>b. mock_at s' b =
            (if b = length (heap s) then Some (fresh_mock (Some ObserverFn)) else mock_at s b))"
proof -
  obtain f s1 where v: "vi_fn None s = (f, s1)" by (cases "vi_fn None s")
  with assms show ?thesis by (intro install_observer_effect [OF v]) (simp add: line16_def)
qed

lemma line23_effect:
  assumes "line23 s = Inr s'"
  shows "global_addr s \<le> length (heap s) \<and>
         length (heap s') = Suc (length (heap s)) \<and> global_addr s' = global_addr s \<and>
         (\<forall>b q. get_prop s' b q =
            (if b = global_addr s \<and> q = ''IntersectionObserver'' then JRef (length (heap s)) else get_prop s b q)) \<and>
         (\<forall>b. mock_at s' b =
            (if b = length (heap s) then Some (fresh_mock (Some ObserverFn)) else mock_at s b))"
proof -
  obtain f s1 where v: "vi_fn None s = (f, s1)" by (cases "vi_fn None s")
  with assms show ?thesis by (intro install_observer_effect [OF v]) (simp add: line23_def)
qed

lemma setupTests_effect:
  assumes "setupTests s = Inr s'"
  shows "\<exists>u. get_prop s (global_addr s) ''URL'' = JRef u \<and> u \<le> length (heap s) \<and>
           length (heap s') = length (heap s) + 4 \<and> global_addr s' = global_addr s \<and>
           (\<forall>b q. get_prop s' b q =
              (if b = global_addr s \<and> q = ''IntersectionObserver'' then JRef (length (heap s) + 3)
               else if b = global_addr s \<and> q = ''ResizeObserver'' then JRef (length (heap s) + 2)
               else if b = u \<and> q = ''revokeObjectURL'' then JRef (length (heap s) + 1)
               else if b = u \<and> q = ''createObjectURL'' then JRef (length (heap s))
               else get_prop s b q)) \<and>
           (\<forall>b. mock_at s' b =
              (if b = length (heap s) then Some (fresh_mock (Some MockedUrlFn))
               else if b = length (heap s) + 1 then Some (fresh_mock None)
               else if b = length (heap s) + 2 \<or> b = length (heap s) + 3
                 then Some (fresh_mock (Some ObserverFn))
               else mock_at s b))"
proof -
  from assms obtain s1 s2 s3 where l12: "line12 s = Inr s1" and l13: "line13 s1 = Inr s2"
    and l16: "line16 s2 = Inr s3" and l23: "line23 s3 = Inr s'"
    by (auto simp: setupTests_def and_then_def split: sum.splits)
  from line12_effect [OF l12] obtain u where
    u: "get_prop s (global_addr s) ''URL'' = JRef u" "u \<le> length (heap s)"
    and e1: "length (heap s1) = Suc (length (heap s))" "global_addr s1 = global_addr s"
      "\<And>b q. get_prop s1 b q =
              (if b = u \<and> q = ''createObjectURL'' then JRef (length (heap s)) else get_prop s b q)"
      "\<And>b. mock_at s1 b =
              (if b = length (heap s) then Some (fresh_mock (Some MockedUrlFn)) else mock_at s b)"
    by blast
  from line13_effect [OF l13] e1 u have
    e2: "length (heap s2) = length (heap s) + 2" "global_addr s2 = global_addr s"
      "\<And>b q. get_prop s2 b q =
              (if b = u \<and> q = ''revokeObjectURL'' then JRef (length (heap s) + 1) else get_prop s1 b q)"
      "\<And>b. mock_at s2 b =
              (if b = length (heap s) + 1 then Some (fresh_mock None) else mock_at s1 b)"
    by auto
  from line16_effect [OF l16] e2 have
    e3: "length (heap s3) = length (heap s) + 3" "global_addr s3 = global_addr s"
      "\<And>b q. get_prop s3 b q =
              (if b = global_addr s \<and> q = ''ResizeObserver'' then JRef (length (heap s) + 2) else get_prop s2 b q)"
      "\<And>b. mock_at s3 b =
              (if b = length (heap s) + 2 then Some (fresh_mock (Some ObserverFn)) else mock_at s2 b)"
    by auto
  from line23_effect [OF l23] e3 have
    e4: "length (heap s') = length (heap s) + 4" "global_addr s' = global_addr s"
      "\<And>b q. get_prop s' b q =
              (if b = global_addr s \<and> q = ''IntersectionObserver'' then JRef (length (heap s) + 3) else get_prop s3 b q)"
      "\<And>b. mock_at s' b =
              (if b = length (heap s) + 3 then Some (fresh_mock (Some ObserverFn)) else mock_at s3 b)"
    by auto
  show ?thesis
    using u e4(1,2) by (intro exI [of _ u]) (simp add: e1 e2 e3 e4)
qed


lemma record_call_effect:
  "length (heap (record_call a args r s)) = length (heap s) \<and>
   global_addr (record_call a args r s) = global_addr s \<and>
   (\<forall>b q. get_prop (record_call a args r s) b q = get_prop s b q) \<and>
   (\<forall>b. mock_at (record_call a args r s) b =
      (if b = a
       then map_option (\<lambda>m. m\<lparr>calls := calls m @ [args], results := results m @ [r]\<rparr>) (mock_at s a)
       else mock_at s b))"
  by (cases "a < length (heap s)")
     (auto simp: record_call_def get_prop_def mock_at_def nth_list_update)

lemma run_ObserverFn_effect:
  assumes "run_closure ObserverFn s = (r, s')"
  shows "r = JRef (length (heap s) + 3) \<and>
         length (heap s') = length (heap s) + 4 \<and> global_addr s' = global_addr s \<and>
         (\<forall>b q. get_prop s' b q =
            (if b = length (heap s) + 3
             then (if q = ''observe'' then JRef (length (heap s))
                   else if q = ''unobserve'' then JRef (length (heap s) + 1)
                   else if q = ''disconnect'' then JRef (length (heap s) + 2)
                   else JUndefined)
             else get_prop s b q)) \<and>
         (\<forall>b. mock_at s' b =
            (if b = length (heap s) \<or> b = length (heap s) + 1 \<or> b = length (heap s) + 2
             then Some (fresh_mock None)
             else if b = length (heap s) + 3 then None
             else mock_at s b))"
proof -
  obtain o1 s1 where v1: "vi_fn None s = (o1, s1)" by (cases "vi_fn None s")
  obtain o2 s2 where v2: "vi_fn None s1 = (o2, s2)" by (cases "vi_fn None s1")
  obtain o3 s3 where v3: "vi_fn None s2 = (o3, s3)" by (cases "vi_fn None s2")
  obtain a s4 where al: "alloc \<lparr>props = [(''observe'', JRef o1), (''unobserve'', JRef o2),
      (''disconnect'', JRef o3)], mock = None\<rparr> s3 = (a, s4)"
    by (cases "alloc \<lparr>props = [(''observe'', JRef o1), (''unobserve'', JRef o2),
      (''disconnect'', JRef o3)], mock = None\<rparr> s3")
  from assms v1 v2 v3 al have r: "r = JRef a" "s' = s4" by simp_all
  from vi_fn_effect [OF v1] have
    e1: "o1 = length (heap s)" "length (heap s1) = length (heap s) + 1" "global_addr s1 = global_addr s"
      "\<And>b q. get_prop s1 b q = get_prop s b q"
      "\<And>b. mock_at s1 b = (if b = length (heap s) then Some (fresh_mock None) else mock_at s b)"
    by auto
  from vi_fn_effect [OF v2] e1 have
    e2: "o2 = length (heap s) + 1" "length (heap s2) = length (heap s) + 2" "global_addr s2 = global_addr s"
      "\<And>b q. get_prop s2 b q = get_prop s1 b q"
      "\<And>b. mock_at s2 b = (if b = length (heap s) + 1 then Some (fresh_mock None) else mock_at s1 b)"
    by auto
  from vi_fn_effect [OF v3] e2 have
    e3: "o3 = length (heap s) + 2" "length (heap s3) = length (heap s) + 3" "global_addr s3 = global_addr s"
      "\<And>b q. get_prop s3 b q = get_prop s2 b q"
      "\<And>b. mock_at s3 b = (if b = length (heap s) + 2 then Some (fresh_mock None) else mock_at s2 b)"
    by auto
  from alloc_effect [OF al] e3 have
    e4: "a = length (heap s) + 3" "length (heap s4) = length (heap s) + 4" "global_addr s4 = global_addr s"
      "\<And>b q. get_prop s4 b q =
          (if b = length (heap s) + 3
           then (case map_of [(''observe'', JRef o1), (''unobserve'', JRef o2), (''disconnect'', JRef o3)] q of
                   None \<Rightarrow> JUndefined | Some v \<Rightarrow> v)
           else get_prop s3 b q)"
      "\<And>b. mock_at s4 b = (if b = length (heap s) + 3 then None else mock_at s3 b)"
    by auto
  show ?thesis unfolding r by (simp add: e1 e2 e3 e4)
qed

lemma call_fn_mock:
  assumes "mock_at s a = Some m"
  shows "call_fn s (JRef a) args =
           (let (r, s1) = (case impl m of None \<Rightarrow> (JUndefined, s) | Some f \<Rightarrow> run_closure f s)
            in Inr (r, record_call a args r s1))"
  using assms by (simp add: mock_at_def split: if_splits)

lemma call_plain_mock:
  "mock_at s a = Some m \<Longrightarrow> impl m = None \<Longrightarrow>
     call_fn s (JRef a) args = Inr (JUndefined, record_call a args JUndefined s)"
  using call_fn_mock [of s a m args] by simp

lemma call_MockedUrlFn:
  "mock_at s a = Some m \<Longrightarrow> impl m = Some MockedUrlFn \<Longrightarrow>
     call_fn s (JRef a) args = Inr (JStr ''mocked-url'', record_call a args (JStr ''mocked-url'') s)"
  using call_fn_mock [of s a m args] by simp

lemma construct_ObserverFn:
  assumes m: "mock_at s a = Some m" and i: "impl m = Some ObserverFn"
  shows "\<exists>s'. construct UpTo3 s (JRef a) args = Inr (JRef (length (heap s) + 4), s') \<and>
         length (heap s') = length (heap s) + 5 \<and> global_addr s' = global_addr s \<and>
         (\<forall>b q. get_prop s' b q =
            (if b = length (heap s) + 4
             then (if q = ''observe'' then JRef (length (heap s) + 1)
                   else if q = ''unobserve'' then JRef (length (heap s) + 2)
                   else if q = ''disconnect'' then JRef (length (heap s) + 3)
                   else JUndefined)
             else get_prop s b q)) \<and>
         (\<forall>b. mock_at s' b =
            (if b = length (heap s) + 1 \<or> b = length (heap s) + 2 \<or> b = length (heap s) + 3
             then Some (fresh_mock None)
             else if b = a
               then Some (m\<lparr>calls := calls m @ [args],
                             results := results m @ [JRef (length (heap s) + 4)]\<rparr>)
             else mock_at s b))"
proof -
  from m have a: "a < length (heap s)" "mock (heap s ! a) = Some m"
    by (auto simp: mock_at_def split: if_splits)
  obtain this s0 where al: "alloc \<lparr>props = [], mock = None\<rparr> s = (this, s0)"
    by (cases "alloc \<lparr>props = [], mock = None\<rparr> s")
  obtain r s1 where rc: "run_closure ObserverFn s0 = (r, s1)" by (cases "run_closure ObserverFn s0")
  from alloc_effect [OF al] have
    e0: "length (heap s0) = length (heap s) + 1" "global_addr s0 = global_addr s"
      "\<And>b q. get_prop s0 b q = get_prop s b q"
      "\<And>b. mock_at s0 b = mock_at s b"
    by (auto simp: get_prop_dangling mock_at_dangling)
  from run_ObserverFn_effect [OF rc] e0 have
    e1: "r = JRef (length (heap s) + 4)" "length (heap s1) = length (heap s) + 5"
      "global_addr s1 = global_addr s"
      "\<And>b q. get_prop s1 b q =
            (if b = length (heap s) + 4
             then (if q = ''observe'' then JRef (length (heap s) + 1)
                   else if q = ''unobserve'' then JRef (length (heap s) + 2)
                   else if q = ''disconnect'' then JRef (length (heap s) + 3)
                   else JUndefined)
             else get_prop s b q)"
      "\<And>b. mock_at s1 b =
            (if b = length (heap s) + 1 \<or> b = length (heap s) + 2 \<or> b = length (heap s) + 3
             then Some (fresh_mock None)
             else if b = length (heap s) + 4 then None
             else mock_at s b)"
    by auto
  have c: "construct UpTo3 s (JRef a) args = Inr (r, record_call a args r s1)"
    using a i al rc e1(1) by simp
  show ?thesis
    using a(1) m unfolding c e1(1)
    by (intro exI [of _ "record_call a args (JRef (length (heap s) + 4)) s1"])
       (simp add: record_call_effect e1 mock_at_dangling)
qed

subsection \<open>Calls and constructions keep what is there\<close>

lemma keeps_refl: "keeps s s"
  by (simp add: keeps_def)

lemma keeps_trans:
  assumes "keeps s t" and "keeps t u"
  shows "keeps s u"
  unfolding keeps_def
proof (intro conjI allI impI)
  show "length (heap s) \<le> length (heap u)" using assms by (simp add: keeps_def)
  show "global_addr u = global_addr s" using assms by (simp add: keeps_def)
next
  fix a q assume "a < length (heap s)"
  with assms show "get_prop u a q = get_prop s a q" by (simp add: keeps_def)
next
  fix a m assume "mock_at s a = Some m"
  with assms(1) obtain m' where "mock_at t a = Some m'" "impl m' = impl m"
    unfolding keeps_def by blast
  moreover with assms(2) obtain m'' where "mock_at u a = Some m''" "impl m'' = impl m'"
    unfolding keeps_def by blast
  ultimately show "\<exists>m'. mock_at u a = Some m' \<and> impl m' = impl m" by simp
next
  fix a assume "a < length (heap s)" "mock_at s a = None"
  with assms show "mock_at u a = None" by (simp add: keeps_def)
qed

lemma alloc_keeps: "alloc ob s = (a, t) \<Longrightarrow> keeps s t"
  by (drule alloc_effect) (auto simp: keeps_def mock_at_dangling)

lemma vi_fn_keeps: "vi_fn f s = (a, t) \<Longrightarrow> keeps s t"
  unfolding vi_fn_def by (rule alloc_keeps)

lemma record_call_keeps: "keeps s (record_call a args r s)"
  by (auto simp: keeps_def record_call_effect)

lemma run_closure_keeps:
  assumes "run_closure f s = (r, t)"
  shows "keeps s t"
proof (cases f)
  case MockedUrlFn
  with assms show ?thesis by (simp add: keeps_refl)
next
  case ObserverFn
  with assms have "run_closure ObserverFn s = (r, t)" by simp
  from run_ObserverFn_effect [OF this] show ?thesis
    by (auto simp: keeps_def mock_at_dangling)
qed

lemma run_impl_keeps:
  assumes "(case impl m of None \<Rightarrow> (JUndefined, s) | Some f \<Rightarrow> run_closure f s) = (r, t)"
  shows "keeps s t"
  using assms by (cases "impl m") (auto simp: keeps_refl dest: run_closure_keeps)

lemma call_fn_keeps:
  assumes "call_fn s f args = Inr (r, t)"
  shows "keeps s t"
proof -
  from assms obtain a where f: "f = JRef a" by (cases f) auto
  from assms f obtain m where m: "mock_at s a = Some m"
    by (auto simp: mock_at_def split: if_splits option.splits)
  obtain r1 s1 where i: "(case impl m of None \<Rightarrow> (JUndefined, s) | Some f \<Rightarrow> run_closure f s) = (r1, s1)"
    by (cases "case impl m of None \<Rightarrow> (JUndefined, s) | Some f \<Rightarrow> run_closure f s")
  from assms have "t = record_call a args r1 s1"
    unfolding f call_fn_mock [OF m] i by auto
  with run_impl_keeps [OF i] record_call_keeps [of s1 a args r1] show ?thesis
    by (auto intro: keeps_trans)
qed

lemma construct_keeps:
  assumes "construct v s f args = Inr (r, t)"
  shows "keeps s t"
proof -
  from assms obtain a where f: "f = JRef a" by (cases f) auto
  from assms f obtain m where a: "a < length (heap s)" and m: "mock (heap s ! a) = Some m"
    by (auto split: if_splits option.splits)
  obtain this s0 where al: "alloc \<lparr>props = [], mock = None\<rparr> s = (this, s0)"
    by (cases "alloc \<lparr>props = [], mock = None\<rparr> s")
  obtain r1 s1 where i: "(case impl m of None \<Rightarrow> (JUndefined, s0) | Some f \<Rightarrow> run_closure f s0) = (r1, s1)"
    by (cases "case impl m of None \<Rightarrow> (JUndefined, s0) | Some f \<Rightarrow> run_closure f s0")
  from assms a m al i have "t = record_call a args r1 s1"
    unfolding f by (auto split: if_splits)
  with alloc_keeps [OF al] run_impl_keeps [OF i] record_call_keeps [of s1 a args r1]
  show ?thesis by (auto intro: keeps_trans)
qed

lemma perform_keeps: "keeps s (perform v s acts)"
proof (induction acts arbitrary: s)
  case Nil
  show ?case by (simp add: keeps_refl)
next
  case (Cons act acts)
  show ?case
  proof (cases act)
    case (Call f args)
    show ?thesis
    proof (cases "call_fn s f args")
      case (Inl e)
      with Call Cons.IH [of s] show ?thesis by simp
    next
      case (Inr p)
      then obtain r t where p: "call_fn s f args = Inr (r, t)" by (cases p) simp
      from call_fn_keeps [OF p] Cons.IH [of t] have "keeps s (perform v t acts)"
        by (rule keeps_trans)
      with Call p show ?thesis by simp
    qed
  next
    case (New f args)
    show ?thesis
    proof (cases "construct v s f args")
      case (Inl e)
      with New Cons.IH [of s] show ?thesis by simp
    next
      case (Inr p)
      then obtain r t where p: "construct v s f args = Inr (r, t)" by (cases p) simp
      from construct_keeps [OF p] Cons.IH [of t] have "keeps s (perform v t acts)"
        by (rule keeps_trans)
      with New p show ?thesis by (simp del: construct.simps)
    qed
  qed
qed

lemma kept_prop:
  assumes "keeps s t" and "get_prop s a q = JRef b"
  shows "get_prop t a q = JRef b"
proof -
  from assms(2) have "a < length (heap s)" by (auto simp: get_prop_def split: if_splits)
  with assms show ?thesis by (simp add: keeps_def)
qed

lemma kept_mock:
  assumes "keeps s t" and "mock_at s a = Some m"
  shows "\<exists>m'. mock_at t a = Some m' \<and> impl m' = impl m"
  using assms unfolding keeps_def by blast

lemma kept_global: "keeps s t \<Longrightarrow> global_get s name = JRef b \<Longrightarrow> global_get t name = JRef b"
  unfolding global_get_def using kept_prop [of s t "global_addr s" name b]
  by (simp add: keeps_def)

lemma installed_after_setup:
  assumes "setupTests s = Inr s'"
  shows "\<exists>u. global_get s' ''URL'' = JRef u \<and>
           get_prop s' u ''createObjectURL'' = JRef (length (heap s)) \<and>
           mock_at s' (length (heap s)) = Some (fresh_mock (Some MockedUrlFn)) \<and>
           get_prop s' u ''revokeObjectURL'' = JRef (length (heap s) + 1) \<and>
           mock_at s' (length (heap s) + 1) = Some (fresh_mock None) \<and>
           global_get s' ''ResizeObserver'' = JRef (length (heap s) + 2) \<and>
           mock_at s' (length (heap s) + 2) = Some (fresh_mock (Some ObserverFn)) \<and>
           global_get s' ''IntersectionObserver'' = JRef (length (heap s) + 3) \<and>
           mock_at s' (length (heap s) + 3) = Some (fresh_mock (Some ObserverFn))"
proof -
  from setupTests_effect [OF assms] obtain u where
    e: "get_prop s (global_addr s) ''URL'' = JRef u" "global_addr s' = global_addr s"
      "\<And>b q. get_prop s' b q =
              (if b = global_addr s \<and> q = ''IntersectionObserver'' then JRef (length (heap s) + 3)
               else if b = global_addr s \<and> q = ''ResizeObserver'' then JRef (length (heap s) + 2)
               else if b = u \<and> q = ''revokeObjectURL'' then JRef (length (heap s) + 1)
               else if b = u \<and> q = ''createObjectURL'' then JRef (length (heap s))
               else get_prop s b q)"
      "\<And>b. mock_at s' b =
              (if b = length (heap s) then Some (fresh_mock (Some MockedUrlFn))
               else if b = length (heap s) + 1 then Some (fresh_mock None)
               else if b = length (heap s) + 2 \<or> b = length (heap s) + 3
                 then Some (fresh_mock (Some ObserverFn))
               else mock_at s b)"
    by blast
  show ?thesis
    by (intro exI [of _ u]) (simp add: global_get_def e)
qed

lemma mocks_stay_installed:
  assumes "setupTests s = Inr s'" and "keeps s' t"
  shows "\<exists>u m1 m2 m3 m4. global_get t ''URL'' = JRef u \<and>
           get_prop t u ''createObjectURL'' = JRef (length (heap s)) \<and>
           mock_at t (length (heap s)) = Some m1 \<and> impl m1 = Some MockedUrlFn \<and>
           get_prop t u ''revokeObjectURL'' = JRef (length (heap s) + 1) \<and>
           mock_at t (length (heap s) + 1) = Some m2 \<and> impl m2 = None \<and>
           global_get t ''ResizeObserver'' = JRef (length (heap s) + 2) \<and>
           mock_at t (length (heap s) + 2) = Some m3 \<and> impl m3 = Some ObserverFn \<and>
           global_get t ''IntersectionObserver'' = JRef (length (heap s) + 3) \<and>
           mock_at t (length (heap s) + 3) = Some m4 \<and> impl m4 = Some ObserverFn"
proof -
  from installed_after_setup [OF assms(1)] obtain u where
    i: "global_get s' ''URL'' = JRef u"
      "get_prop s' u ''createObjectURL'' = JRef (length (heap s))"
      "mock_at s' (length (heap s)) = Some (fresh_mock (Some MockedUrlFn))"
      "get_prop s' u ''revokeObjectURL'' = JRef (length (heap s) + 1)"
      "mock_at s' (length (heap s) + 1) = Some (fresh_mock None)"
      "global_get s' ''ResizeObserver'' = JRef (length (heap s) + 2)"
      "mock_at s' (length (heap s) + 2) = Some (fresh_mock (Some ObserverFn))"
      "global_get s' ''IntersectionObserver'' = JRef (length (heap s) + 3)"
      "mock_at s' (length (heap s) + 3) = Some (fresh_mock (Some ObserverFn))"
    by blast
  note k = assms(2)
  from kept_mock [OF k i(3)] obtain m1 where
    m1: "mock_at t (length (heap s)) = Some m1" "impl m1 = Some MockedUrlFn"
    by (auto simp: fresh_mock_def)
  from kept_mock [OF k i(5)] obtain m2 where
    m2: "mock_at t (length (heap s) + 1) = Some m2" "impl m2 = None"
    by (auto simp: fresh_mock_def)
  from kept_mock [OF k i(7)] obtain m3 where
    m3: "mock_at t (length (heap s) + 2) = Some m3" "impl m3 = Some ObserverFn"
    by (auto simp: fresh_mock_def)
  from kept_mock [OF k i(9)] obtain m4 where
    m4: "mock_at t (length (heap s) + 3) = Some m4" "impl m4 = Some ObserverFn"
    by (auto simp: fresh_mock_def)
  from kept_global [OF k i(1)] kept_prop [OF k i(2)] kept_prop [OF k i(4)]
    kept_global [OF k i(6)] kept_global [OF k i(8)] m1 m2 m3 m4
  show ?thesis by blast
qed

lemma call_member_unimplemented:
  assumes "get_prop t ob q = JRef f" and "mock_at t f = Some m" and "impl m = None"
  shows "call_member t (JRef ob) q args = Inr (JUndefined, record_call f args JUndefined t) \<and>
         length (heap (record_call f args JUndefined t)) = length (heap t) \<and>
         global_addr (record_call f args JUndefined t) = global_addr t \<and>
         (\<forall>b p. get_prop (record_call f args JUndefined t) b p = get_prop t b p) \<and>
         (\<forall>b. b \<noteq> f \<longrightarrow> mock_at (record_call f args JUndefined t) b = mock_at t b) \<and>
         mock_at (record_call f args JUndefined t) f =
           Some (m\<lparr>calls := calls m @ [args], results := results m @ [JUndefined]\<rparr>)"
  using assms call_plain_mock [of t f m args]
  by (simp add: record_call_effect)

lemma method_kept:
  assumes "get_prop t ob q = JRef f" and "mock_at t f = Some m" and "impl m = None"
    and "keeps t t'"
  shows "get_prop t' ob q = JRef f \<and> (\<exists>m'. mock_at t' f = Some m' \<and> impl m' = None)"
  using kept_prop [OF assms(4,1)] kept_mock [OF assms(4,2)] assms(3) by simp


subsection \<open>Evaluation on the example environment\<close>

lemmas config_defs = vite_config_ui_def vite_config_root_def defineConfig_def

lemmas script_defs = setupTests_def line12_def line13_def line16_def line23_def and_then_def
  vi_fn_def alloc_def mockImplementation_def get_prop_def global_get_def

lemma jsdom_setup: "setupTests jsdom_env = Inr jsdom_after_setup"
  by (simp add: script_defs jsdom_env_def jsdom_after_setup_def)

lemma jsdom_new_observer:
  "construct UpTo3 jsdom_after_setup (global_get jsdom_after_setup ''ResizeObserver'') [] =
     Inr (JRef 11, jsdom_with_observer)"
  by (simp add: script_defs jsdom_after_setup_def jsdom_with_observer_def record_call_def)

lemma root_leaves_in_ui:
  "list_all (\<lambda>(p, v). field_at vite_config_ui p = Some v) (leaves vite_config_root)"
  by (simp add: config_defs)

lemma ui_leaves_in_root:
  "list_all (\<lambda>(p, v). take 1 p = [''esbuild''] \<or> take 2 p = [''optimizeDeps'', ''esbuildOptions'']
       \<or> field_at vite_config_root p = Some v) (leaves vite_config_ui)"
  by (simp add: config_defs)

lemma jsdom_unobserve:
  "perform UpTo3 jsdom_with_observer [Call (JRef 9) [JNum 1]] =
     record_call 9 [JNum 1] JUndefined jsdom_with_observer"
proof -
  have m: "mock_at jsdom_with_observer 9 = Some (fresh_mock None)"
    by (simp add: mock_at_def jsdom_with_observer_def fresh_mock_def)
  from call_plain_mock [OF m, of "[JNum 1]"] show ?thesis
    by (simp add: fresh_mock_def del: call_fn.simps)
qed

section \<open>The configuration values\<close>

text \<open>
  C2. Each of the two configuration files exports, under the field paths of the spec's list,
  the literal values written in the source: server.port 3000, server.host true,
  server.open true, build.outDir 'build', build.sourcemap true, define.global
  'globalThis', resolve.alias with './runtimeConfig' mapped to './runtimeConfig.browser'
  and 'buffer' to 'buffer', optimizeDeps.include ['aws-amplify',
  '@aws-amplify/ui-react', 'buffer'], test.globals true, test.environment 'jsdom',
  test.setupFiles './src/setupTests.js', test.css true and test.server.deps.external
  ['maplibre-gl'].
\<close>

theorem config_values_as_listed:
  "field_at vite_config_ui [''server'', ''port''] = Some (LNum 3000) \<and>
   field_at vite_config_ui [''server'', ''host''] = Some (LBool True) \<and>
   field_at vite_config_ui [''server'', ''open''] = Some (LBool True) \<and>
   field_at vite_config_ui [''build'', ''outDir''] = Some (LStr ''build'') \<and>
   field_at vite_config_ui [''build'', ''sourcemap''] = Some (LBool True) \<and>
   field_at vite_config_ui [''define'', ''global''] = Some (LStr ''globalThis'') \<and>
   field_at vite_config_ui [''resolve'', ''alias''] =
     Some (LObj [(''./runtimeConfig'', LStr ''./runtimeConfig.browser''), (''buffer'', LStr ''buffer'')]) \<and>
   field_at vite_config_ui [''optimizeDeps'', ''include''] =
     Some (LArr [LStr ''aws-amplify'', LStr ''@aws-amplify/ui-react'', LStr ''buffer'']) \<and>
   field_at vite_config_ui [''test'', ''globals''] = Some (LBool True) \<and>
   field_at vite_config_ui [''test'', ''environment''] = Some (LStr ''jsdom'') \<and>
   field_at vite_config_ui [''test'', ''setupFiles''] = Some (LStr ''./src/setupTests.js'') \<and>
   field_at vite_config_ui [''test'', ''css''] = Some (LBool True) \<and>
   field_at vite_config_ui [''test'', ''server'', ''deps'', ''external''] =
     Some (LArr [LStr ''maplibre-gl'']) \<and>
   field_at vite_config_root [''server'', ''port''] = Some (LNum 3000) \<and>
   field_at vite_config_root [''server'', ''host''] = Some (LBool True) \<and>
   field_at vite_config_root [''server'', ''open''] = Some (LBool True) \<and>
   field_at vite_config_root [''build'', ''outDir''] = Some (LStr ''build'') \<and>
   field_at vite_config_root [''build'', ''sourcemap''] = Some (LBool True) \<and>
   field_at vite_config_root [''define'', ''global''] = Some (LStr ''globalThis'') \<and>
   field_at vite_config_root [''resolve'', ''alias''] =
     Some (LObj [(''./runtimeConfig'', LStr ''./runtimeConfig.browser''), (''buffer'', LStr ''buffer'')]) \<and>
   field_at vite_config_root [''optimizeDeps'', ''include''] =
     Some (LArr [LStr ''aws-amplify'', LStr ''@aws-amplify/ui-react'', LStr ''buffer'']) \<and>
   field_at vite_config_root [''test'', ''globals''] = Some (LBool True) \<and>
   field_at vite_config_root [''test'', ''environment''] = Some (LStr ''jsdom'') \<and>
   field_at vite_config_root [''test'', ''setupFiles''] = Some (LStr ''./src/setupTests.js'') \<and>
   field_at vite_config_root [''test'', ''css''] = Some (LBool True) \<and>
   field_at vite_config_root [''test'', ''server'', ''deps'', ''external''] =
     Some (LArr [LStr ''maplibre-gl''])"
  by (simp add: config_defs)

text \<open>
  C3, as the spec states it, fails: the two exported objects are not equal.
  \<^verbatim>\<open>src/ui/vite.config.js\<close> has the fields \<^verbatim>\<open>esbuild.loader\<close> and
  \<^verbatim>\<open>optimizeDeps.esbuildOptions.loader['.js']\<close>, both 'jsx'; the other file has
  neither path.
\<close>

theorem configs_differ:
  "field_at vite_config_ui [''esbuild'', ''loader''] = Some (LStr ''jsx'') \<and>
   field_at vite_config_root [''esbuild'', ''loader''] = None \<and>
   field_at vite_config_ui [''optimizeDeps'', ''esbuildOptions'', ''loader'', ''.js''] = Some (LStr ''jsx'') \<and>
   field_at vite_config_root [''optimizeDeps'', ''esbuildOptions'', ''loader'', ''.js''] = None \<and>
   vite_config_ui \<noteq> vite_config_root"
  by (simp add: config_defs)

text \<open>
  C3, amended. The two files agree wherever they both say something: every field path at
  which the second file holds a value other than a nested object holds the same value in
  \<^verbatim>\<open>src/ui/vite.config.js\<close>; and every such path of \<^verbatim>\<open>src/ui/vite.config.js\<close>
  that lies neither under \<^verbatim>\<open>esbuild\<close> nor under \<^verbatim>\<open>optimizeDeps.esbuildOptions\<close>
  holds the same value in the second file.
\<close>

theorem configs_agree_on_shared_fields:
  "(field_at vite_config_root p = Some v \<and> \<not> is_object v \<longrightarrow> field_at vite_config_ui p = Some v) \<and>
   (field_at vite_config_ui p = Some v \<and> \<not> is_object v \<and> take 1 p \<noteq> [''esbuild''] \<and>
      take 2 p \<noteq> [''optimizeDeps'', ''esbuildOptions''] \<longrightarrow> field_at vite_config_root p = Some v)"
  using field_at_leaf [of vite_config_root p v] root_leaves_in_ui
    field_at_leaf [of vite_config_ui p v] ui_leaves_in_root
  unfolding list_all_iff by blast

theorem configs_agree_on_shared_fields_witness:
  "field_at vite_config_root [''server'', ''port''] = Some (LNum 3000) \<and>
   field_at vite_config_ui [''server'', ''port''] = Some (LNum 3000) \<and>
   field_at vite_config_ui [''test'', ''server'', ''deps'', ''external''] = Some (LArr [LStr ''maplibre-gl'']) \<and>
   field_at vite_config_root [''test'', ''server'', ''deps'', ''external''] = Some (LArr [LStr ''maplibre-gl''])"
proof -
  have r: "field_at vite_config_root [''server'', ''port''] = Some (LNum 3000)"
    by (simp add: config_defs)
  have u: "field_at vite_config_ui [''test'', ''server'', ''deps'', ''external''] =
      Some (LArr [LStr ''maplibre-gl''])"
    by (simp add: config_defs)
  from r u configs_agree_on_shared_fields [of "[''server'', ''port'']" "LNum 3000"]
    configs_agree_on_shared_fields [of "[''test'', ''server'', ''deps'', ''external'']"
      "LArr [LStr ''maplibre-gl'']"]
  show ?thesis by simp
qed

section \<open>The setup script installs the mocks, before the tests\<close>

lemma run_tests_events: "list_all is_test_run (fst (run_tests i tests s))"
proof (induction tests arbitrary: i s)
  case Nil
  show ?case by simp
next
  case (Cons t ts)
  obtain ok s1 where t: "t s = (ok, s1)" by (cases "t s")
  obtain ev s2 where r: "run_tests (Suc i) ts s1 = (ev, s2)" by (cases "run_tests (Suc i) ts s1")
  from Cons.IH [of "Suc i" s1] r have "list_all is_test_run ev" by simp
  with t r show ?case by simp
qed

lemma setup_files_configs:
  "setup_files vite_config_ui = [''./src/setupTests.js'']"
  "setup_files vite_config_root = [''./src/setupTests.js'']"
  by (simp_all add: setup_files_def config_defs)

lemma run_test_file_configs:
  assumes "c = vite_config_ui \<or> c = vite_config_root"
  shows "run_test_file c tests s =
           (case setupTests s of
              Inl e \<Rightarrow> Inl e
            | Inr s' \<Rightarrow> Inr (SetupFileRun ''./src/setupTests.js'' # fst (run_tests 0 tests s'),
                            snd (run_tests 0 tests s')))"
  using assms
  by (auto simp: run_test_file_def setup_files_configs load_setup_file_def and_then_def
           split: sum.splits prod.splits)

lemma setup_failure_runs_no_test:
  "c = vite_config_ui \<or> c = vite_config_root \<Longrightarrow> setupTests s = Inl e \<Longrightarrow>
     run_test_file c tests s = Inl e"
  by (simp add: run_test_file_configs)

text \<open>
  C1. Whenever the setup script has run to its end, \<^verbatim>\<open>URL.createObjectURL\<close> is bound to a
  new mock whose implementation is the constant-string function: it returns 'mocked-url'
  in every state, and so does every call of the binding, for every argument list and
  after whatever calls and constructions code under test has made;
  \<^verbatim>\<open>URL.revokeObjectURL\<close> is bound to a new mock without implementation, every call
  of which returns \<^verbatim>\<open>undefined\<close> and does nothing but record the call;
  \<^verbatim>\<open>ResizeObserver\<close> and \<^verbatim>\<open>IntersectionObserver\<close> are bound to two new mocks whose
  implementation, in every state, produces an observer stand-in: a new object whose
  \<^verbatim>\<open>observe\<close>, \<^verbatim>\<open>unobserve\<close> and \<^verbatim>\<open>disconnect\<close> are three new mocks without
  implementation. None of the four mocks has been called.
  And the installation happens before any test executes: with either configuration
  file, a run of a test file by the runner consists of the run of the setup script,
  first, and then of the tests only, which start from the state the script has left.
\<close>

theorem setup_installs_mocks:
  assumes "setupTests s = Inr s'"
  shows "\<exists>u. global_get s' ''URL'' = JRef u \<and>
           get_prop s' u ''createObjectURL'' = JRef (length (heap s)) \<and>
           mock_at s' (length (heap s)) = Some (fresh_mock (Some MockedUrlFn)) \<and>
           get_prop s' u ''revokeObjectURL'' = JRef (length (heap s) + 1) \<and>
           mock_at s' (length (heap s) + 1) = Some (fresh_mock None) \<and>
           global_get s' ''ResizeObserver'' = JRef (length (heap s) + 2) \<and>
           mock_at s' (length (heap s) + 2) = Some (fresh_mock (Some ObserverFn)) \<and>
           global_get s' ''IntersectionObserver'' = JRef (length (heap s) + 3) \<and>
           mock_at s' (length (heap s) + 3) = Some (fresh_mock (Some ObserverFn)) \<and>
           (\<forall>t. run_closure MockedUrlFn t = (JStr ''mocked-url'', t)) \<and>
           (\<forall>v acts args.
              call_member (perform v s' acts) (global_get (perform v s' acts) ''URL'')
                  ''createObjectURL'' args =
                Inr (JStr ''mocked-url'',
                     record_call (length (heap s)) args (JStr ''mocked-url'') (perform v s' acts))) \<and>
           (\<forall>v acts args.
              call_member (perform v s' acts) (global_get (perform v s' acts) ''URL'')
                  ''revokeObjectURL'' args =
                Inr (JUndefined,
                     record_call (length (heap s) + 1) args JUndefined (perform v s' acts))) \<and>
           (\<forall>t. \<exists>t'. run_closure ObserverFn t = (JRef (length (heap t) + 3), t') \<and>
              mock_at t' (length (heap t) + 3) = None \<and>
              get_prop t' (length (heap t) + 3) ''observe'' = JRef (length (heap t)) \<and>
              get_prop t' (length (heap t) + 3) ''unobserve'' = JRef (length (heap t) + 1) \<and>
              get_prop t' (length (heap t) + 3) ''disconnect'' = JRef (length (heap t) + 2) \<and>
              mock_at t' (length (heap t)) = Some (fresh_mock None) \<and>
              mock_at t' (length (heap t) + 1) = Some (fresh_mock None) \<and>
              mock_at t' (length (heap t) + 2) = Some (fresh_mock None)) \<and>
           (\<forall>c \<in> {vite_config_ui, vite_config_root}. \<forall>tests.
              run_test_file c tests s =
                Inr (SetupFileRun ''./src/setupTests.js'' # fst (run_tests 0 tests s'),
                     snd (run_tests 0 tests s')) \<and>
              list_all is_test_run (fst (run_tests 0 tests s')))"
proof -
  from installed_after_setup [OF assms] obtain u where
    i: "global_get s' ''URL'' = JRef u"
      "get_prop s' u ''createObjectURL'' = JRef (length (heap s))"
      "mock_at s' (length (heap s)) = Some (fresh_mock (Some MockedUrlFn))"
      "get_prop s' u ''revokeObjectURL'' = JRef (length (heap s) + 1)"
      "mock_at s' (length (heap s) + 1) = Some (fresh_mock None)"
      "global_get s' ''ResizeObserver'' = JRef (length (heap s) + 2)"
      "mock_at s' (length (heap s) + 2) = Some (fresh_mock (Some ObserverFn))"
      "global_get s' ''IntersectionObserver'' = JRef (length (heap s) + 3)"
      "mock_at s' (length (heap s) + 3) = Some (fresh_mock (Some ObserverFn))"
    by blast
  have later: "call_member (perform v s' acts) (global_get (perform v s' acts) ''URL'')
                  ''createObjectURL'' args =
                Inr (JStr ''mocked-url'',
                     record_call (length (heap s)) args (JStr ''mocked-url'') (perform v s' acts)) \<and>
      call_member (perform v s' acts) (global_get (perform v s' acts) ''URL'')
                  ''revokeObjectURL'' args =
                Inr (JUndefined,
                     record_call (length (heap s) + 1) args JUndefined (perform v s' acts))"
    for v acts args
  proof -
    from mocks_stay_installed [OF assms perform_keeps [of s' v acts]] obtain w m1 m2 where
      w: "global_get (perform v s' acts) ''URL'' = JRef w"
        "get_prop (perform v s' acts) w ''createObjectURL'' = JRef (length (heap s))"
        "mock_at (perform v s' acts) (length (heap s)) = Some m1" "impl m1 = Some MockedUrlFn"
        "get_prop (perform v s' acts) w ''revokeObjectURL'' = JRef (length (heap s) + 1)"
        "mock_at (perform v s' acts) (length (heap s) + 1) = Some m2" "impl m2 = None"
      by blast
    from call_MockedUrlFn [OF w(3,4), of args] call_plain_mock [OF w(6,7), of args]
    show ?thesis by (simp add: w(1,2,5) del: call_fn.simps)
  qed
  have ob: "\<exists>t'. run_closure ObserverFn t = (JRef (length (heap t) + 3), t') \<and>
              mock_at t' (length (heap t) + 3) = None \<and>
              get_prop t' (length (heap t) + 3) ''observe'' = JRef (length (heap t)) \<and>
              get_prop t' (length (heap t) + 3) ''unobserve'' = JRef (length (heap t) + 1) \<and>
              get_prop t' (length (heap t) + 3) ''disconnect'' = JRef (length (heap t) + 2) \<and>
              mock_at t' (length (heap t)) = Some (fresh_mock None) \<and>
              mock_at t' (length (heap t) + 1) = Some (fresh_mock None) \<and>
              mock_at t' (length (heap t) + 2) = Some (fresh_mock None)" for t
  proof -
    obtain r t' where rc: "run_closure ObserverFn t = (r, t')" by (cases "run_closure ObserverFn t")
    from run_ObserverFn_effect [OF rc] rc show ?thesis by (intro exI [of _ t']) simp
  qed
  have rn: "run_test_file c tests s =
                Inr (SetupFileRun ''./src/setupTests.js'' # fst (run_tests 0 tests s'),
                     snd (run_tests 0 tests s'))"
    if "c = vite_config_ui \<or> c = vite_config_root" for c tests
    using that assms by (simp add: run_test_file_configs)
  show ?thesis
    using i later ob rn run_tests_events
    by (intro exI [of _ u]) (simp del: perform.simps call_member.simps)
qed

lemma jsdom_first_call:
  "perform v jsdom_after_setup [Call (JRef 3) [JStr ''blob'']] =
     record_call 3 [JStr ''blob''] (JStr ''mocked-url'') jsdom_after_setup"
proof -
  have m: "mock_at jsdom_after_setup 3 = Some (fresh_mock (Some MockedUrlFn))"
    by (simp add: mock_at_def jsdom_after_setup_def fresh_mock_def)
  from call_MockedUrlFn [OF m, of "[JStr ''blob'']"] show ?thesis
    by (simp add: fresh_mock_def del: call_fn.simps)
qed

theorem setup_installs_mocks_witness:
  "setupTests jsdom_env = Inr jsdom_after_setup \<and>
   global_get jsdom_after_setup ''URL'' = JRef 1 \<and>
   get_prop jsdom_after_setup 1 ''createObjectURL'' = JRef 3 \<and>
   mock_at jsdom_after_setup 3 = Some (fresh_mock (Some MockedUrlFn)) \<and>
   get_prop jsdom_after_setup 1 ''revokeObjectURL'' = JRef 4 \<and>
   mock_at jsdom_after_setup 4 = Some (fresh_mock None) \<and>
   global_get jsdom_after_setup ''ResizeObserver'' = JRef 5 \<and>
   mock_at jsdom_after_setup 5 = Some (fresh_mock (Some ObserverFn)) \<and>
   global_get jsdom_after_setup ''IntersectionObserver'' = JRef 6 \<and>
   mock_at jsdom_after_setup 6 = Some (fresh_mock (Some ObserverFn)) \<and>
   call_member jsdom_after_setup (JRef 1) ''createObjectURL'' [JStr ''blob''] =
     Inr (JStr ''mocked-url'', record_call 3 [JStr ''blob''] (JStr ''mocked-url'') jsdom_after_setup) \<and>
   call_member jsdom_after_setup (JRef 1) ''revokeObjectURL'' [JStr ''mocked-url''] =
     Inr (JUndefined, record_call 4 [JStr ''mocked-url''] JUndefined jsdom_after_setup) \<and>
   (\<exists>t'. run_closure ObserverFn jsdom_after_setup = (JRef 10, t') \<and>
      get_prop t' 10 ''observe'' = JRef 7 \<and> mock_at t' 7 = Some (fresh_mock None)) \<and>
   run_test_file vite_config_ui [example_test, example_test] jsdom_env =
     Inr ([SetupFileRun ''./src/setupTests.js'', TestRun 0 True, TestRun 1 True],
          record_call 3 [JStr ''blob''] (JStr ''mocked-url'')
            (record_call 3 [JStr ''blob''] (JStr ''mocked-url'') jsdom_after_setup))"
proof -
  have u: "global_get jsdom_after_setup ''URL'' = JRef 1"
    by (simp add: global_get_def get_prop_def jsdom_after_setup_def)
  have n: "length (heap jsdom_env) = 3" "length (heap jsdom_after_setup) = 7"
    by (simp_all add: jsdom_env_def jsdom_after_setup_def)
  from setup_installs_mocks [OF jsdom_setup] u obtain
    a: "get_prop jsdom_after_setup 1 ''createObjectURL'' = JRef 3"
      "mock_at jsdom_after_setup 3 = Some (fresh_mock (Some MockedUrlFn))"
      "get_prop jsdom_after_setup 1 ''revokeObjectURL'' = JRef 4"
      "mock_at jsdom_after_setup 4 = Some (fresh_mock None)"
      "global_get jsdom_after_setup ''ResizeObserver'' = JRef 5"
      "mock_at jsdom_after_setup 5 = Some (fresh_mock (Some ObserverFn))"
      "global_get jsdom_after_setup ''IntersectionObserver'' = JRef 6"
      "mock_at jsdom_after_setup 6 = Some (fresh_mock (Some ObserverFn))"
    and b: "\<And>v acts args.
        call_member (perform v jsdom_after_setup acts)
            (global_get (perform v jsdom_after_setup acts) ''URL'') ''createObjectURL'' args =
          Inr (JStr ''mocked-url'',
               record_call 3 args (JStr ''mocked-url'') (perform v jsdom_after_setup acts))"
      "\<And>v acts args.
        call_member (perform v jsdom_after_setup acts)
            (global_get (perform v jsdom_after_setup acts) ''URL'') ''revokeObjectURL'' args =
          Inr (JUndefined, record_call 4 args JUndefined (perform v jsdom_after_setup acts))"
    and c: "\<And>t. \<exists>t'. run_closure ObserverFn t = (JRef (length (heap t) + 3), t') \<and>
              mock_at t' (length (heap t) + 3) = None \<and>
              get_prop t' (length (heap t) + 3) ''observe'' = JRef (length (heap t)) \<and>
              get_prop t' (length (heap t) + 3) ''unobserve'' = JRef (length (heap t) + 1) \<and>
              get_prop t' (length (heap t) + 3) ''disconnect'' = JRef (length (heap t) + 2) \<and>
              mock_at t' (length (heap t)) = Some (fresh_mock None) \<and>
              mock_at t' (length (heap t) + 1) = Some (fresh_mock None) \<and>
              mock_at t' (length (heap t) + 2) = Some (fresh_mock None)"
    and d: "\<And>tests. run_test_file vite_config_ui tests jsdom_env =
                Inr (SetupFileRun ''./src/setupTests.js'' # fst (run_tests 0 tests jsdom_after_setup),
                     snd (run_tests 0 tests jsdom_after_setup))"
    by (auto simp: n simp del: perform.simps call_member.simps)
  from b [of UpTo3 "[]"] u have b0:
    "\<And>args. call_member jsdom_after_setup (JRef 1) ''createObjectURL'' args =
        Inr (JStr ''mocked-url'', record_call 3 args (JStr ''mocked-url'') jsdom_after_setup)"
    "\<And>args. call_member jsdom_after_setup (JRef 1) ''revokeObjectURL'' args =
        Inr (JUndefined, record_call 4 args JUndefined jsdom_after_setup)"
    by (simp_all del: call_member.simps)
  have t1: "example_test jsdom_after_setup =
      (True, record_call 3 [JStr ''blob''] (JStr ''mocked-url'') jsdom_after_setup)"
    unfolding example_test_def u b0 by simp
  have t2: "example_test (record_call 3 [JStr ''blob''] (JStr ''mocked-url'') jsdom_after_setup) =
      (True, record_call 3 [JStr ''blob''] (JStr ''mocked-url'')
               (record_call 3 [JStr ''blob''] (JStr ''mocked-url'') jsdom_after_setup))"
    using b(1) [of UpTo3 "[Call (JRef 3) [JStr ''blob'']]" "[JStr ''blob'']"]
    unfolding example_test_def jsdom_first_call by simp
  from c [of jsdom_after_setup] have c': "\<exists>t'. run_closure ObserverFn jsdom_after_setup = (JRef 10, t') \<and>
      get_prop t' 10 ''observe'' = JRef 7 \<and> mock_at t' 7 = Some (fresh_mock None)"
    by (auto simp: n)
  show ?thesis
    using a b0 c' by (simp add: jsdom_setup u d t1 t2 del: run_closure.simps call_member.simps)
qed

section \<open>The mocked object-URL functions\<close>

lemma call_URL_each_fixed:
  assumes "global_get t ''URL'' = JRef u"
    and "get_prop t u ''createObjectURL'' = JRef a1" and "mock_at t a1 = Some m1"
    and "impl m1 = Some MockedUrlFn"
    and "get_prop t u ''revokeObjectURL'' = JRef a2" and "mock_at t a2 = Some m2"
    and "impl m2 = None"
    and "\<forall>(name, args) \<in> set cs. name = ''createObjectURL'' \<or> name = ''revokeObjectURL''"
  shows "\<exists>t'. call_URL_each t cs =
           Inr (map (\<lambda>(name, args). if name = ''createObjectURL'' then JStr ''mocked-url''
                                      else JUndefined) cs, t')"
  using assms
proof (induction cs arbitrary: t m1 m2)
  case Nil
  then show ?case by simp
next
  case (Cons c cs)
  obtain name args where c: "c = (name, args)" by (cases c)
  from Cons.prems(3,4,6,7) have ne: "a1 \<noteq> a2" by auto
  from Cons.prems(8) c have nm: "name = ''createObjectURL'' \<or> name = ''revokeObjectURL''"
    and rest: "\<forall>(name, args) \<in> set cs. name = ''createObjectURL'' \<or> name = ''revokeObjectURL''"
    by auto
  define r where "r = (if name = ''createObjectURL'' then JStr ''mocked-url'' else JUndefined)"
  define a where "a = (if name = ''createObjectURL'' then a1 else a2)"
  define t1 where "t1 = record_call a args r t"
  have call: "call_member t (global_get t ''URL'') name args = Inr (r, t1)"
    using nm Cons.prems(1-7) call_MockedUrlFn [of t a1 m1 args] call_plain_mock [of t a2 m2 args]
    by (auto simp: r_def a_def t1_def)
  have v: "global_get t1 ''URL'' = JRef u" "get_prop t1 u ''createObjectURL'' = JRef a1"
    "get_prop t1 u ''revokeObjectURL'' = JRef a2"
    using Cons.prems(1,2,5) by (simp_all add: t1_def global_get_def record_call_effect)
  have "\<exists>m1'. mock_at t1 a1 = Some m1' \<and> impl m1' = Some MockedUrlFn"
    using Cons.prems(3,4) ne by (cases "a = a1") (simp_all add: t1_def record_call_effect)
  moreover have "\<exists>m2'. mock_at t1 a2 = Some m2' \<and> impl m2' = None"
    using Cons.prems(6,7) ne by (cases "a = a2") (simp_all add: t1_def record_call_effect)
  ultimately obtain m1' m2' where m: "mock_at t1 a1 = Some m1'" "impl m1' = Some MockedUrlFn"
    "mock_at t1 a2 = Some m2'" "impl m2' = None"
    by blast
  from Cons.IH [OF v(1) v(2) m(1) m(2) v(3) m(3) m(4) rest] obtain t' where
    "call_URL_each t1 cs =
       Inr (map (\<lambda>(name, args). if name = ''createObjectURL'' then JStr ''mocked-url''
                                  else JUndefined) cs, t')" ..
  with call show ?case by (simp add: c and_then_def r_def)
qed

text \<open>
  C4. After setup, every invocation of the mocked globals returns the fixed stand-in value:
  whatever sequence of calls \<^verbatim>\<open>URL.createObjectURL(...)\<close> and
  \<^verbatim>\<open>URL.revokeObjectURL(...)\<close> code under test makes, with whatever arguments, each
  call of the first returns the string 'mocked-url' and each call of the second returns
  \<^verbatim>\<open>undefined\<close>.
\<close>

theorem URL_mocks_return_fixed_values:
  assumes "setupTests s = Inr s'"
    and "\<forall>(name, args) \<in> set cs. name = ''createObjectURL'' \<or> name = ''revokeObjectURL''"
  shows "\<exists>t. call_URL_each s' cs =
           Inr (map (\<lambda>(name, args). if name = ''createObjectURL'' then JStr ''mocked-url''
                                      else JUndefined) cs, t)"
proof -
  from setupTests_effect [OF assms(1)] obtain u where
    e: "get_prop s (global_addr s) ''URL'' = JRef u" "global_addr s' = global_addr s"
      "\<And>b q. get_prop s' b q =
              (if b = global_addr s \<and> q = ''IntersectionObserver'' then JRef (length (heap s) + 3)
               else if b = global_addr s \<and> q = ''ResizeObserver'' then JRef (length (heap s) + 2)
               else if b = u \<and> q = ''revokeObjectURL'' then JRef (length (heap s) + 1)
               else if b = u \<and> q = ''createObjectURL'' then JRef (length (heap s))
               else get_prop s b q)"
      "\<And>b. mock_at s' b =
              (if b = length (heap s) then Some (fresh_mock (Some MockedUrlFn))
               else if b = length (heap s) + 1 then Some (fresh_mock None)
               else if b = length (heap s) + 2 \<or> b = length (heap s) + 3
                 then Some (fresh_mock (Some ObserverFn))
               else mock_at s b)"
    by blast
  show ?thesis
  proof (rule call_URL_each_fixed [OF _ _ _ _ _ _ _ assms(2)])
    show "global_get s' ''URL'' = JRef u" by (simp add: global_get_def e)
    show "get_prop s' u ''createObjectURL'' = JRef (length (heap s))" by (simp add: e)
    show "mock_at s' (length (heap s)) = Some (fresh_mock (Some MockedUrlFn))" by (simp add: e)
    show "impl (fresh_mock (Some MockedUrlFn)) = Some MockedUrlFn" by (simp add: fresh_mock_def)
    show "get_prop s' u ''revokeObjectURL'' = JRef (length (heap s) + 1)" by (simp add: e)
    show "mock_at s' (length (heap s) + 1) = Some (fresh_mock None)" by (simp add: e)
    show "impl (fresh_mock None) = None" by (simp add: fresh_mock_def)
  qed
qed

theorem URL_mocks_return_fixed_values_witness:
  "setupTests jsdom_env = Inr jsdom_after_setup \<and>
   (\<exists>t. call_URL_each jsdom_after_setup
          [(''createObjectURL'', [JRef 2]), (''revokeObjectURL'', [JStr ''mocked-url'']),
           (''createObjectURL'', []), (''createObjectURL'', [JNum 7, JNull])] =
        Inr ([JStr ''mocked-url'', JUndefined, JStr ''mocked-url'', JStr ''mocked-url''], t))"
  using URL_mocks_return_fixed_values [OF jsdom_setup,
      of "[(''createObjectURL'', [JRef 2]), (''revokeObjectURL'', [JStr ''mocked-url'']),
           (''createObjectURL'', []), (''createObjectURL'', [JNum 7, JNull])]"]
  by (simp add: jsdom_setup)

section \<open>The mocked observer constructors\<close>

lemma observer_installed:
  assumes "setupTests s = Inr s'" and "keeps s' t"
    and "name = ''ResizeObserver'' \<or> name = ''IntersectionObserver''"
  shows "\<exists>a m. global_get t name = JRef a \<and> mock_at t a = Some m \<and> impl m = Some ObserverFn"
  using mocks_stay_installed [OF assms(1,2)] assms(3) by auto

lemma new_observer:
  assumes "global_get s name = JRef a" and "mock_at s a = Some m" and "impl m = Some ObserverFn"
    and "q = ''observe'' \<or> q = ''unobserve'' \<or> q = ''disconnect''"
  shows "\<exists>ob t. construct UpTo3 s (global_get s name) args = Inr (JRef ob, t) \<and>
           mock_at t ob = None \<and>
           (\<exists>f. get_prop t ob q = JRef f \<and> mock_at t f = Some (fresh_mock None))"
proof -
  from construct_ObserverFn [OF assms(2,3), of args] obtain t where
    c: "construct UpTo3 s (JRef a) args = Inr (JRef (length (heap s) + 4), t)"
    and e: "\<And>b q. get_prop t b q =
            (if b = length (heap s) + 4
             then (if q = ''observe'' then JRef (length (heap s) + 1)
                   else if q = ''unobserve'' then JRef (length (heap s) + 2)
                   else if q = ''disconnect'' then JRef (length (heap s) + 3)
                   else JUndefined)
             else get_prop s b q)"
       "\<And>b. mock_at t b =
            (if b = length (heap s) + 1 \<or> b = length (heap s) + 2 \<or> b = length (heap s) + 3
             then Some (fresh_mock None)
             else if b = a
               then Some (m\<lparr>calls := calls m @ [args],
                             results := results m @ [JRef (length (heap s) + 4)]\<rparr>)
             else mock_at s b)"
    by blast
  from assms(2) have "a < length (heap s)" by (auto simp: mock_at_def split: if_splits)
  with assms(4) show ?thesis
    unfolding assms(1) c
    by (intro exI [of _ "length (heap s) + 4"] exI [of _ t])
       (auto simp: e mock_at_dangling)
qed

text \<open>
  C5, as the spec states it, fails in one point: a method of an observer stand-in is not
  without effect on the state. Each of the three methods is made by \<^verbatim>\<open>vi.fn()\<close>, a
  mock that records its calls: in the example environment, \<^verbatim>\<open>new ResizeObserver()\<close>
  gives the object at address 11, and \<^verbatim>\<open>observe(document)\<close> on it returns
  \<^verbatim>\<open>undefined\<close> and leaves a different state, in which the mock at address 8 holds the
  call and its result.
\<close>

theorem observe_changes_call_record:
  "setupTests jsdom_env = Inr jsdom_after_setup \<and>
   construct UpTo3 jsdom_after_setup (global_get jsdom_after_setup ''ResizeObserver'') [] =
     Inr (JRef 11, jsdom_with_observer) \<and>
   call_member jsdom_with_observer (JRef 11) ''observe'' [JRef 2] =
     Inr (JUndefined, record_call 8 [JRef 2] JUndefined jsdom_with_observer) \<and>
   record_call 8 [JRef 2] JUndefined jsdom_with_observer \<noteq> jsdom_with_observer \<and>
   mock_at jsdom_with_observer 8 = Some \<lparr>impl = None, calls = [], results = []\<rparr> \<and>
   mock_at (record_call 8 [JRef 2] JUndefined jsdom_with_observer) 8 =
     Some \<lparr>impl = None, calls = [[JRef 2]], results = [JUndefined]\<rparr>"
proof -
  have g: "get_prop jsdom_with_observer 11 ''observe'' = JRef 8"
    by (simp add: get_prop_def jsdom_with_observer_def)
  have m: "mock_at jsdom_with_observer 8 = Some (fresh_mock None)"
    by (simp add: mock_at_def jsdom_with_observer_def fresh_mock_def)
  have i: "impl (fresh_mock None) = None" by (simp add: fresh_mock_def)
  from call_member_unimplemented [OF g m i, of "[JRef 2]"] m
  have "call_member jsdom_with_observer (JRef 11) ''observe'' [JRef 2] =
      Inr (JUndefined, record_call 8 [JRef 2] JUndefined jsdom_with_observer)"
    and "mock_at (record_call 8 [JRef 2] JUndefined jsdom_with_observer) 8 =
      Some \<lparr>impl = None, calls = [[JRef 2]], results = [JUndefined]\<rparr>"
    and "mock_at jsdom_with_observer 8 = Some \<lparr>impl = None, calls = [], results = []\<rparr>"
    by (simp_all add: fresh_mock_def)
  moreover from this(2,3)
  have "record_call 8 [JRef 2] JUndefined jsdom_with_observer \<noteq> jsdom_with_observer"
    by auto
  ultimately show ?thesis by (simp add: jsdom_setup jsdom_new_observer)
qed

text \<open>
  C5, amended (for vitest up to version 3, where a mock can be constructed). After setup,
  and after whatever calls and constructions code under test has made since, for every
  argument list \<^verbatim>\<open>new ResizeObserver(...)\<close> and \<^verbatim>\<open>new IntersectionObserver(...)\<close>
  return an object whose \<^verbatim>\<open>observe\<close>, \<^verbatim>\<open>unobserve\<close> and \<^verbatim>\<open>disconnect\<close> are
  functions. From then on, whatever further calls and constructions are made, every call
  of one of these methods, with any arguments, returns \<^verbatim>\<open>undefined\<close> and changes
  nothing but the call record of that one mock, to which the arguments and the result are
  appended: no property of any object, no other mock, no global binding, and no object is
  allocated.
\<close>

theorem observer_methods_only_record_calls:
  assumes "setupTests s = Inr s'"
    and "name = ''ResizeObserver'' \<or> name = ''IntersectionObserver''"
    and "q = ''observe'' \<or> q = ''unobserve'' \<or> q = ''disconnect''"
  shows "\<exists>ob t1 f.
           construct UpTo3 (perform UpTo3 s' acts) (global_get (perform UpTo3 s' acts) name) args =
             Inr (JRef ob, t1) \<and>
           mock_at t1 ob = None \<and> get_prop t1 ob q = JRef f \<and> typeof t1 (JRef f) = ''function'' \<and>
           (\<forall>acts' args'. \<exists>m.
              mock_at (perform UpTo3 t1 acts') f = Some m \<and>
              call_member (perform UpTo3 t1 acts') (JRef ob) q args' =
                Inr (JUndefined, record_call f args' JUndefined (perform UpTo3 t1 acts')) \<and>
              length (heap (record_call f args' JUndefined (perform UpTo3 t1 acts'))) =
                length (heap (perform UpTo3 t1 acts')) \<and>
              global_addr (record_call f args' JUndefined (perform UpTo3 t1 acts')) =
                global_addr (perform UpTo3 t1 acts') \<and>
              (\<forall>b p. get_prop (record_call f args' JUndefined (perform UpTo3 t1 acts')) b p =
                       get_prop (perform UpTo3 t1 acts') b p) \<and>
              (\<forall>b. b \<noteq> f \<longrightarrow>
                 mock_at (record_call f args' JUndefined (perform UpTo3 t1 acts')) b =
                   mock_at (perform UpTo3 t1 acts') b) \<and>
              mock_at (record_call f args' JUndefined (perform UpTo3 t1 acts')) f =
                Some (m\<lparr>calls := calls m @ [args'], results := results m @ [JUndefined]\<rparr>))"
proof -
  define t where "t = perform UpTo3 s' acts"
  have k: "keeps s' t" unfolding t_def by (rule perform_keeps)
  from observer_installed [OF assms(1) k assms(2)] obtain a m where
    a: "global_get t name = JRef a" "mock_at t a = Some m" "impl m = Some ObserverFn"
    by blast
  from new_observer [OF a assms(3), of args] obtain ob t1 f where
    c: "construct UpTo3 t (global_get t name) args = Inr (JRef ob, t1)" "mock_at t1 ob = None"
      "get_prop t1 ob q = JRef f" "mock_at t1 f = Some (fresh_mock None)"
    by blast
  from c(4) have ty: "typeof t1 (JRef f) = ''function''" by simp
  have i: "impl (fresh_mock None) = None" by (simp add: fresh_mock_def)
  have later: "\<exists>m.
      mock_at (perform UpTo3 t1 acts') f = Some m \<and>
      call_member (perform UpTo3 t1 acts') (JRef ob) q args' =
        Inr (JUndefined, record_call f args' JUndefined (perform UpTo3 t1 acts')) \<and>
      length (heap (record_call f args' JUndefined (perform UpTo3 t1 acts'))) =
        length (heap (perform UpTo3 t1 acts')) \<and>
      global_addr (record_call f args' JUndefined (perform UpTo3 t1 acts')) =
        global_addr (perform UpTo3 t1 acts') \<and>
      (\<forall>b p. get_prop (record_call f args' JUndefined (perform UpTo3 t1 acts')) b p =
               get_prop (perform UpTo3 t1 acts') b p) \<and>
      (\<forall>b. b \<noteq> f \<longrightarrow>
         mock_at (record_call f args' JUndefined (perform UpTo3 t1 acts')) b =
           mock_at (perform UpTo3 t1 acts') b) \<and>
      mock_at (record_call f args' JUndefined (perform UpTo3 t1 acts')) f =
        Some (m\<lparr>calls := calls m @ [args'], results := results m @ [JUndefined]\<rparr>)"
    for acts' args'
  proof -
    from method_kept [OF c(3,4) i perform_keeps [of t1 UpTo3 acts']] obtain m' where
      m': "get_prop (perform UpTo3 t1 acts') ob q = JRef f"
        "mock_at (perform UpTo3 t1 acts') f = Some m'" "impl m' = None"
      by blast
    from call_member_unimplemented [OF m', of args'] m'(2) show ?thesis by blast
  qed
  show ?thesis
    using c(1,2,3) ty later unfolding t_def
    by (intro exI [of _ ob] exI [of _ t1] exI [of _ f]) blast
qed

theorem observer_methods_only_record_calls_witness:
  "setupTests jsdom_env = Inr jsdom_after_setup \<and>
   construct UpTo3 (perform UpTo3 jsdom_after_setup [])
       (global_get (perform UpTo3 jsdom_after_setup []) ''ResizeObserver'') [] =
     Inr (JRef 11, jsdom_with_observer) \<and>
   get_prop jsdom_with_observer 11 ''unobserve'' = JRef 9 \<and>
   mock_at (perform UpTo3 jsdom_with_observer [Call (JRef 9) [JNum 1]]) 9 =
     Some \<lparr>impl = None, calls = [[JNum 1]], results = [JUndefined]\<rparr> \<and>
   call_member (perform UpTo3 jsdom_with_observer [Call (JRef 9) [JNum 1]]) (JRef 11)
       ''unobserve'' [JRef 2] =
     Inr (JUndefined, record_call 9 [JRef 2] JUndefined
            (perform UpTo3 jsdom_with_observer [Call (JRef 9) [JNum 1]])) \<and>
   mock_at (record_call 9 [JRef 2] JUndefined
              (perform UpTo3 jsdom_with_observer [Call (JRef 9) [JNum 1]])) 9 =
     Some \<lparr>impl = None, calls = [[JNum 1], [JRef 2]], results = [JUndefined, JUndefined]\<rparr> \<and>
   mock_at (record_call 9 [JRef 2] JUndefined
              (perform UpTo3 jsdom_with_observer [Call (JRef 9) [JNum 1]])) 8 =
     Some \<lparr>impl = None, calls = [], results = []\<rparr>"
proof -
  have g: "get_prop jsdom_with_observer 11 ''unobserve'' = JRef 9"
    by (simp add: get_prop_def jsdom_with_observer_def)
  have m: "mock_at (perform UpTo3 jsdom_with_observer [Call (JRef 9) [JNum 1]]) 9 =
      Some \<lparr>impl = None, calls = [[JNum 1]], results = [JUndefined]\<rparr>"
    "mock_at (perform UpTo3 jsdom_with_observer [Call (JRef 9) [JNum 1]]) 8 =
      Some \<lparr>impl = None, calls = [], results = []\<rparr>"
    unfolding jsdom_unobserve
    by (simp_all add: record_call_effect) (simp_all add: mock_at_def jsdom_with_observer_def)
  have c: "construct UpTo3 (perform UpTo3 jsdom_after_setup [])
       (global_get (perform UpTo3 jsdom_after_setup []) ''ResizeObserver'') [] =
     Inr (JRef 11, jsdom_with_observer)"
    using jsdom_new_observer by simp
  from observer_methods_only_record_calls [OF jsdom_setup, of "''ResizeObserver''" "''unobserve''" "[]" "[]"]
  obtain ob t1 f where
    o: "construct UpTo3 (perform UpTo3 jsdom_after_setup [])
          (global_get (perform UpTo3 jsdom_after_setup []) ''ResizeObserver'') [] = Inr (JRef ob, t1)"
      "get_prop t1 ob ''unobserve'' = JRef f"
    and l: "\<forall>acts' args'. \<exists>m.
          mock_at (perform UpTo3 t1 acts') f = Some m \<and>
          call_member (perform UpTo3 t1 acts') (JRef ob) ''unobserve'' args' =
            Inr (JUndefined, record_call f args' JUndefined (perform UpTo3 t1 acts')) \<and>
          length (heap (record_call f args' JUndefined (perform UpTo3 t1 acts'))) =
            length (heap (perform UpTo3 t1 acts')) \<and>
          global_addr (record_call f args' JUndefined (perform UpTo3 t1 acts')) =
            global_addr (perform UpTo3 t1 acts') \<and>
          (\<forall>b p. get_prop (record_call f args' JUndefined (perform UpTo3 t1 acts')) b p =
                   get_prop (perform UpTo3 t1 acts') b p) \<and>
          (\<forall>b. b \<noteq> f \<longrightarrow>
             mock_at (record_call f args' JUndefined (perform UpTo3 t1 acts')) b =
               mock_at (perform UpTo3 t1 acts') b) \<and>
          mock_at (record_call f args' JUndefined (perform UpTo3 t1 acts')) f =
            Some (m\<lparr>calls := calls m @ [args'], results := results m @ [JUndefined]\<rparr>)"
    by (simp del: perform.simps call_member.simps construct.simps) blast
  from o(1) c have ob: "ob = 11" "t1 = jsdom_with_observer" by simp_all
  with o(2) g have f: "f = 9" by simp
  from l [unfolded ob f, rule_format, of "[Call (JRef 9) [JNum 1]]" "[JRef 2]"] m
  have "call_member (perform UpTo3 jsdom_with_observer [Call (JRef 9) [JNum 1]]) (JRef 11)
       ''unobserve'' [JRef 2] =
     Inr (JUndefined, record_call 9 [JRef 2] JUndefined
            (perform UpTo3 jsdom_with_observer [Call (JRef 9) [JNum 1]]))"
    and "mock_at (record_call 9 [JRef 2] JUndefined
              (perform UpTo3 jsdom_with_observer [Call (JRef 9) [JNum 1]])) 9 =
     Some \<lparr>impl = None, calls = [[JNum 1], [JRef 2]], results = [JUndefined, JUndefined]\<rparr>"
    and "mock_at (record_call 9 [JRef 2] JUndefined
              (perform UpTo3 jsdom_with_observer [Call (JRef 9) [JNum 1]])) 8 =
     Some \<lparr>impl = None, calls = [], results = []\<rparr>"
    by (auto simp del: perform.simps call_member.simps)
  with m(1) c g jsdom_setup show ?thesis by blast
qed

section \<open>Calling the mocks\<close>

lemma URL_functions_after_setup:
  assumes "setupTests s = Inr s'"
  shows "call_member s' (global_get s' ''URL'') ''createObjectURL'' args =
           Inr (JStr ''mocked-url'', record_call (length (heap s)) args (JStr ''mocked-url'') s') \<and>
         call_member s' (global_get s' ''URL'') ''revokeObjectURL'' args =
           Inr (JUndefined, record_call (length (heap s) + 1) args JUndefined s')"
proof -
  from setupTests_effect [OF assms(1)] obtain u where
    e: "get_prop s (global_addr s) ''URL'' = JRef u" "global_addr s' = global_addr s"
      "\<And>b q. get_prop s' b q =
              (if b = global_addr s \<and> q = ''IntersectionObserver'' then JRef (length (heap s) + 3)
               else if b = global_addr s \<and> q = ''ResizeObserver'' then JRef (length (heap s) + 2)
               else if b = u \<and> q = ''revokeObjectURL'' then JRef (length (heap s) + 1)
               else if b = u \<and> q = ''createObjectURL'' then JRef (length (heap s))
               else get_prop s b q)"
      "\<And>b. mock_at s' b =
              (if b = length (heap s) then Some (fresh_mock (Some MockedUrlFn))
               else if b = length (heap s) + 1 then Some (fresh_mock None)
               else if b = length (heap s) + 2 \<or> b = length (heap s) + 3
                 then Some (fresh_mock (Some ObserverFn))
               else mock_at s b)"
    by blast
  have u: "global_get s' ''URL'' = JRef u" by (simp add: global_get_def e)
  have c: "get_prop s' u ''createObjectURL'' = JRef (length (heap s))"
    and r: "get_prop s' u ''revokeObjectURL'' = JRef (length (heap s) + 1)"
    by (simp_all add: e)
  have mc: "mock_at s' (length (heap s)) = Some (fresh_mock (Some MockedUrlFn))"
    and mr: "mock_at s' (length (heap s) + 1) = Some (fresh_mock None)"
    by (simp_all add: e)
  from call_MockedUrlFn [OF mc, of args] call_plain_mock [OF mr, of args]
  show ?thesis by (simp add: u c r fresh_mock_def)
qed






text \<open>
  C9. The mocked \<^verbatim>\<open>URL.createObjectURL\<close> is independent of its input: after setup, for
  any two argument lists the values returned are equal, both the string 'mocked-url'.
  (The arguments are kept in the mock's call record, not in the value returned.)
\<close>

theorem createObjectURL_ignores_its_argument:
  assumes "setupTests s = Inr s'"
  shows "returned (call_member s' (global_get s' ''URL'') ''createObjectURL'' xs) =
           returned (call_member s' (global_get s' ''URL'') ''createObjectURL'' ys) \<and>
         returned (call_member s' (global_get s' ''URL'') ''createObjectURL'' xs) =
           Inr (JStr ''mocked-url'')"
  using URL_functions_after_setup [OF assms, of xs] URL_functions_after_setup [OF assms, of ys]
  by (simp add: returned_def)

theorem createObjectURL_ignores_its_argument_witness:
  "setupTests jsdom_env = Inr jsdom_after_setup \<and>
   returned (call_member jsdom_after_setup (global_get jsdom_after_setup ''URL'') ''createObjectURL'' [JStr ''secret'']) =
     returned (call_member jsdom_after_setup (global_get jsdom_after_setup ''URL'') ''createObjectURL'' [JNum 0])"
  using createObjectURL_ignores_its_argument [OF jsdom_setup, of "[JStr ''secret'']" "[JNum 0]"]
  by (simp add: jsdom_setup)

section \<open>What the setup script leaves alone\<close>

text \<open>
  C6. The script (lines 12 to 27) overwrites exactly four bindings: the properties
  \<^verbatim>\<open>createObjectURL\<close> and \<^verbatim>\<open>revokeObjectURL\<close> of the object bound to
  \<^verbatim>\<open>global.URL\<close>, and the properties \<^verbatim>\<open>ResizeObserver\<close> and
  \<^verbatim>\<open>IntersectionObserver\<close> of the global object, each with a mock allocated by the
  script. Every other property of every object, hence every other global binding, has
  the value it had before, the global object is the same, and no mock that existed
  before is changed.
\<close>

theorem setup_overwrites_only_its_four_bindings:
  assumes "setupTests s = Inr s'"
  shows "\<exists>u. global_get s ''URL'' = JRef u \<and> global_addr s' = global_addr s \<and>
           get_prop s' u ''createObjectURL'' = JRef (length (heap s)) \<and>
           get_prop s' u ''revokeObjectURL'' = JRef (length (heap s) + 1) \<and>
           get_prop s' (global_addr s) ''ResizeObserver'' = JRef (length (heap s) + 2) \<and>
           get_prop s' (global_addr s) ''IntersectionObserver'' = JRef (length (heap s) + 3) \<and>
           (\<forall>a p. (a, p) \<notin> {(u, ''createObjectURL''), (u, ''revokeObjectURL''),
                             (global_addr s, ''ResizeObserver''),
                             (global_addr s, ''IntersectionObserver'')} \<longrightarrow>
                  get_prop s' a p = get_prop s a p) \<and>
           (\<forall>a. a < length (heap s) \<longrightarrow> mock_at s' a = mock_at s a)"
proof -
  from setupTests_effect [OF assms(1)] obtain u where
    e: "get_prop s (global_addr s) ''URL'' = JRef u" "global_addr s' = global_addr s"
      "\<And>b q. get_prop s' b q =
              (if b = global_addr s \<and> q = ''IntersectionObserver'' then JRef (length (heap s) + 3)
               else if b = global_addr s \<and> q = ''ResizeObserver'' then JRef (length (heap s) + 2)
               else if b = u \<and> q = ''revokeObjectURL'' then JRef (length (heap s) + 1)
               else if b = u \<and> q = ''createObjectURL'' then JRef (length (heap s))
               else get_prop s b q)"
      "\<And>b. mock_at s' b =
              (if b = length (heap s) then Some (fresh_mock (Some MockedUrlFn))
               else if b = length (heap s) + 1 then Some (fresh_mock None)
               else if b = length (heap s) + 2 \<or> b = length (heap s) + 3
                 then Some (fresh_mock (Some ObserverFn))
               else mock_at s b)"
    by blast
  show ?thesis
    by (intro exI [of _ u]) (simp add: global_get_def e)
qed

theorem setup_overwrites_only_its_four_bindings_witness:
  "setupTests jsdom_env = Inr jsdom_after_setup \<and>
   global_get jsdom_env ''URL'' = JRef 1 \<and>
   global_get jsdom_after_setup ''URL'' = JRef 1 \<and>
   global_get jsdom_after_setup ''document'' = global_get jsdom_env ''document'' \<and>
   get_prop jsdom_after_setup 1 ''name'' = get_prop jsdom_env 1 ''name'' \<and>
   get_prop jsdom_after_setup 0 ''createObjectURL'' = get_prop jsdom_env 0 ''createObjectURL'' \<and>
   mock_at jsdom_after_setup 2 = mock_at jsdom_env 2"
proof -
  have u: "global_get jsdom_env ''URL'' = JRef 1" and g: "global_addr jsdom_env = 0"
    and n: "length (heap jsdom_env) = 3"
    by (simp_all add: global_get_def get_prop_def jsdom_env_def)
  from setup_overwrites_only_its_four_bindings [OF jsdom_setup] u g n
  show ?thesis by (auto simp: jsdom_setup global_get_def)
qed

section \<open>Running the setup script again\<close>

lemma line12_succeeds:
  "get_prop s (global_addr s) ''URL'' = JRef u \<Longrightarrow> u \<le> length (heap s) \<Longrightarrow> \<exists>s'. line12 s = Inr s'"
  by (simp add: line12_def vi_fn_def alloc_def)

lemma line13_succeeds:
  "get_prop s (global_addr s) ''URL'' = JRef u \<Longrightarrow> u \<le> length (heap s) \<Longrightarrow> \<exists>s'. line13 s = Inr s'"
  by (simp add: line13_def vi_fn_def alloc_def)

lemma line16_succeeds: "global_addr s \<le> length (heap s) \<Longrightarrow> \<exists>s'. line16 s = Inr s'"
  by (simp add: line16_def vi_fn_def alloc_def mockImplementation_def and_then_def)

lemma line23_succeeds: "global_addr s \<le> length (heap s) \<Longrightarrow> \<exists>s'. line23 s = Inr s'"
  by (simp add: line23_def vi_fn_def alloc_def mockImplementation_def and_then_def)

lemma setupTests_succeeds:
  assumes u: "get_prop s (global_addr s) ''URL'' = JRef u" and le: "u \<le> length (heap s)"
  shows "\<exists>s'. setupTests s = Inr s'"
proof -
  from u have g: "global_addr s < length (heap s)"
    by (auto simp: get_prop_def split: if_splits)
  from line12_succeeds [OF u le] obtain s1 where l12: "line12 s = Inr s1" ..
  from line12_effect [OF l12] u g have
    e1: "get_prop s1 (global_addr s1) ''URL'' = JRef u" "u \<le> length (heap s1)"
      "global_addr s1 \<le> length (heap s1)"
    using le by auto
  from line13_succeeds [OF e1(1,2)] obtain s2 where l13: "line13 s1 = Inr s2" ..
  from line13_effect [OF l13] e1 have e2: "global_addr s2 \<le> length (heap s2)" by auto
  from line16_succeeds [OF e2] obtain s3 where l16: "line16 s2 = Inr s3" ..
  from line16_effect [OF l16] e2 have e3: "global_addr s3 \<le> length (heap s3)" by auto
  from line23_succeeds [OF e3] obtain s4 where l23: "line23 s3 = Inr s4" ..
  from l12 l13 l16 l23 show ?thesis by (simp add: setupTests_def and_then_def)
qed

lemma observer_after_setup:
  assumes "setupTests s = Inr s'"
    and "name = ''ResizeObserver'' \<or> name = ''IntersectionObserver''"
  shows "\<exists>a m. global_get s' name = JRef a \<and> mock_at s' a = Some m \<and> impl m = Some ObserverFn"
  using observer_installed [OF assms(1) keeps_refl assms(2)] .

lemma new_From4_throws:
  assumes "mock_at s a = Some m" and "impl m = Some ObserverFn"
  shows "construct From4 s (JRef a) args = Inl TypeError"
  using assms by (auto simp: mock_at_def split: if_splits)

lemma new_observer_behaviour:
  assumes "global_get s name = JRef a" and "mock_at s a = Some m" and "impl m = Some ObserverFn"
  shows "new_then_call v s name args q args' =
           (if v = From4 then Inl TypeError
            else if q = ''observe'' \<or> q = ''unobserve'' \<or> q = ''disconnect''
            then Inr JUndefined else Inl TypeError) \<and>
         new_then_typeof v s name args q =
           (if v = From4 then Inl TypeError
            else Inr (if q = ''observe'' \<or> q = ''unobserve'' \<or> q = ''disconnect''
                      then ''function'' else ''undefined''))"
proof (cases v)
  case From4
  with new_From4_throws [OF assms(2,3), of args] show ?thesis
    unfolding new_then_call_def new_then_typeof_def assms(1) and_then_def returned_def
    by (simp del: construct.simps)
next
  case UpTo3
  from construct_ObserverFn [OF assms(2,3), of args] obtain t where
    c: "construct UpTo3 s (JRef a) args = Inr (JRef (length (heap s) + 4), t)"
    and e: "\<And>b q. get_prop t b q =
            (if b = length (heap s) + 4
             then (if q = ''observe'' then JRef (length (heap s) + 1)
                   else if q = ''unobserve'' then JRef (length (heap s) + 2)
                   else if q = ''disconnect'' then JRef (length (heap s) + 3)
                   else JUndefined)
             else get_prop s b q)"
       "\<And>b. mock_at t b =
            (if b = length (heap s) + 1 \<or> b = length (heap s) + 2 \<or> b = length (heap s) + 3
             then Some (fresh_mock None)
             else if b = a
               then Some (m\<lparr>calls := calls m @ [args],
                             results := results m @ [JRef (length (heap s) + 4)]\<rparr>)
             else mock_at s b)"
    by blast
  have i: "impl (fresh_mock None) = None" by (simp add: fresh_mock_def)
  show ?thesis
  proof (cases "q = ''observe'' \<or> q = ''unobserve'' \<or> q = ''disconnect''")
    case True
    then obtain f where f: "get_prop t (length (heap s) + 4) q = JRef f"
      "mock_at t f = Some (fresh_mock None)"
      by (auto simp: e)
    from call_member_unimplemented [OF f i, of args']
    have cm: "call_member t (JRef (length (heap s) + 4)) q args' =
        Inr (JUndefined, record_call f args' JUndefined t)" by blast
    from f(2) have ty: "typeof t (JRef f) = ''function''" by simp
    from True show ?thesis
      unfolding new_then_call_def new_then_typeof_def assms(1) UpTo3 c and_then_def returned_def
      by (simp add: cm f(1) ty del: call_member.simps typeof.simps)
  next
    case False
    then have g: "get_prop t (length (heap s) + 4) q = JUndefined" by (simp add: e)
    then have cm: "call_member t (JRef (length (heap s) + 4)) q args' = Inl TypeError" by simp
    from False show ?thesis
      unfolding new_then_call_def new_then_typeof_def assms(1) UpTo3 c and_then_def returned_def
      by (simp add: cm g del: call_member.simps)
  qed
qed

text \<open>
  C10. Running the script a second time is idempotent for what code under test can
  observe. If a first run has ended, a second run on the state it left ends too, and
  afterwards, as after the first run: \<^verbatim>\<open>URL.createObjectURL\<close> and
  \<^verbatim>\<open>URL.revokeObjectURL\<close> return the same value for every argument list; and for
  \<^verbatim>\<open>ResizeObserver\<close> and \<^verbatim>\<open>IntersectionObserver\<close>, every construction gives an
  object of the same shape: each property has the same \<^verbatim>\<open>typeof\<close>, and calling it
  gives the same result, for every property name and all arguments (with a version of
  vitest under which construction throws, it throws after both runs).
\<close>

theorem setup_twice_same_behaviour:
  assumes "setupTests s = Inr s1"
  shows "\<exists>s2. setupTests s1 = Inr s2 \<and>
           (\<forall>f \<in> {''createObjectURL'', ''revokeObjectURL''}. \<forall>args.
              returned (call_member s2 (global_get s2 ''URL'') f args) =
              returned (call_member s1 (global_get s1 ''URL'') f args)) \<and>
           (\<forall>name \<in> {''ResizeObserver'', ''IntersectionObserver''}. \<forall>args q args'.
              new_then_call v s2 name args q args' = new_then_call v s1 name args q args' \<and>
              new_then_typeof v s2 name args q = new_then_typeof v s1 name args q)"
proof -
  from setupTests_effect [OF assms] obtain u where
    "get_prop s1 (global_addr s1) ''URL'' = JRef u" "u \<le> length (heap s1)"
    by auto
  from setupTests_succeeds [OF this] obtain s2 where s2: "setupTests s1 = Inr s2" ..
  have url: "returned (call_member s2 (global_get s2 ''URL'') f args) =
      returned (call_member s1 (global_get s1 ''URL'') f args)"
    if "f = ''createObjectURL'' \<or> f = ''revokeObjectURL''" for f args
    using that URL_functions_after_setup [OF assms, of args] URL_functions_after_setup [OF s2, of args]
    by (auto simp: returned_def)
  have obs: "new_then_call v s2 name args q args' = new_then_call v s1 name args q args' \<and>
      new_then_typeof v s2 name args q = new_then_typeof v s1 name args q"
    if name: "name = ''ResizeObserver'' \<or> name = ''IntersectionObserver''" for name args q args'
  proof -
    from observer_after_setup [OF assms name] obtain a1 m1 where
      a1: "global_get s1 name = JRef a1" "mock_at s1 a1 = Some m1" "impl m1 = Some ObserverFn"
      by blast
    from observer_after_setup [OF s2 name] obtain a2 m2 where
      a2: "global_get s2 name = JRef a2" "mock_at s2 a2 = Some m2" "impl m2 = Some ObserverFn"
      by blast
    from new_observer_behaviour [OF a1, of v args q args'] new_observer_behaviour [OF a2, of v args q args']
    show ?thesis by simp
  qed
  from s2 url obs show ?thesis by (intro exI [of _ s2]) simp
qed

theorem setup_twice_same_behaviour_witness:
  "setupTests jsdom_env = Inr jsdom_after_setup \<and>
   (\<exists>s2. setupTests jsdom_after_setup = Inr s2 \<and>
      returned (call_member s2 (global_get s2 ''URL'') ''createObjectURL'' [JNum 1]) =
        returned (call_member jsdom_after_setup (global_get jsdom_after_setup ''URL'') ''createObjectURL'' [JNum 1]) \<and>
      new_then_call UpTo3 s2 ''ResizeObserver'' [] ''observe'' [JRef 2] =
        new_then_call UpTo3 jsdom_after_setup ''ResizeObserver'' [] ''observe'' [JRef 2] \<and>
      new_then_typeof UpTo3 s2 ''IntersectionObserver'' [] ''takeRecords'' =
        new_then_typeof UpTo3 jsdom_after_setup ''IntersectionObserver'' [] ''takeRecords'')"
  using setup_twice_same_behaviour [OF jsdom_setup, of UpTo3]
  by (simp add: jsdom_setup) blast

end
